theory Spec2Isabelle
  imports Complex_Main
begin

section \<open>The region-selection engine of vibeReel1\<close>

text \<open>
  The script keeps two crop rectangles over a video preview in ratio coordinates and lets
  the user move them or resize them from a corner handle. This theory embeds the
  geometry and the pointer-event handlers of the script and proves properties of them.

  JavaScript numbers are IEEE doubles; here they are exact reals, so every equation
  below is an equation of exact arithmetic. \<open>video.videoWidth\<close> and
  \<open>video.videoHeight\<close> are unsigned integers of the DOM and are naturals here.
  Painting (the projection of the ratios onto CSS percentages) and pointer capture
  change no value that the handlers read back, and are left out. Of the submission, the
  handling of the response is embedded; the request it posts is not.
\<close>

subsection \<open>Constants and \<open>clamp\<close>\<close>

definition clamp :: "real \<Rightarrow> real \<Rightarrow> real \<Rightarrow> real" where
  "clamp v lo hi = (if lo > hi then lo else min (max v lo) hi)"

definition TARGET_ASPECT_width :: real where
  "TARGET_ASPECT_width = 1100"

definition TARGET_ASPECT_height :: real where
  "TARGET_ASPECT_height = 1000"

definition TARGET_ASPECT_RATIO :: real where
  "TARGET_ASPECT_RATIO = TARGET_ASPECT_width / TARGET_ASPECT_height"

datatype handle = TopLeft | TopRight | BottomLeft | BottomRight

definition HANDLE_POSITIONS :: "handle list" where
  "HANDLE_POSITIONS = [TopLeft, TopRight, BottomLeft, BottomRight]"

subsection \<open>Data\<close>

text \<open>
  The two rectangle objects are shared between the \<open>rectangles\<close> array and the
  interaction that drags one of them; the array is a store from the identity of a
  rectangle to its fields. \<open>left\<close> and \<open>top\<close> are \<open>null\<close> until the first sizing.
\<close>

datatype rect_id = RectSpeaker1 | RectSpeaker2

record rect =
  id_str :: string
  defaultLeft :: real
  defaultTop :: real
  left_opt :: "real option"
  top_opt :: "real option"
  widthRatio :: real
  heightRatio :: real

record pointer_event =
  clientX :: real
  clientY :: real
  pointerId :: int

record video =
  videoWidth :: nat
  videoHeight :: nat

text \<open>The result of \<open>overlay.getBoundingClientRect()\<close>.\<close>

record dom_rect =
  bounds_left :: real
  bounds_top :: real
  bounds_width :: real
  bounds_height :: real

record move_start =
  start_clientX :: real
  start_clientY :: real
  start_left :: real
  start_top :: real

record resize_start =
  start_leftRatio :: real
  start_topRatio :: real
  start_widthRatio :: real
  start_heightRatio :: real
  start_leftPx :: real
  start_topPx :: real
  start_widthPx :: real
  start_heightPx :: real

datatype target = RectElement rect_id | HandleElement rect_id handle

text \<open>
  The \<open>interaction\<close> object: its \<open>mode\<close> is the constructor, followed by the rectangle,
  (the handle,) \<open>start\<close>, \<open>pointerId\<close> and \<open>capturedTarget\<close>.
\<close>

datatype interaction =
  Move rect_id move_start int target
| Resize rect_id handle resize_start int target

record state =
  rectangles :: "rect_id \<Rightarrow> rect"
  interaction :: "interaction option"
  minWidthRatio :: real

definition initial_rect1 :: rect where
  "initial_rect1 = \<lparr> id_str = ''rect-speaker-1'', defaultLeft = 0.05, defaultTop = 0.1,
     left_opt = None, top_opt = None, widthRatio = 0, heightRatio = 0 \<rparr>"

definition initial_rect2 :: rect where
  "initial_rect2 = \<lparr> id_str = ''rect-speaker-2'', defaultLeft = 0.6, defaultTop = 0.55,
     left_opt = None, top_opt = None, widthRatio = 0, heightRatio = 0 \<rparr>"

definition initial_state :: state where
  "initial_state = \<lparr> rectangles = (\<lambda>i. case i of RectSpeaker1 \<Rightarrow> initial_rect1
                                                  | RectSpeaker2 \<Rightarrow> initial_rect2),
     interaction = None, minWidthRatio = 0.12 \<rparr>"

subsection \<open>Sizing from the video\<close>

definition getVideoMetrics :: "video \<Rightarrow> (real \<times> real) option" where
  "getVideoMetrics v =
     (if videoWidth v = 0 \<or> videoHeight v = 0 then None
      else Some (real (videoWidth v), real (videoHeight v)))"

text \<open>The body of the \<open>forEach\<close> of \<open>updateRectSizeFromVideo\<close>, for one rectangle.\<close>

definition sizeRect :: "real \<Rightarrow> real \<Rightarrow> rect \<Rightarrow> rect" where
  "sizeRect cropWidth cropHeight r =
     (let (l, t) = (case (left_opt r, top_opt r) of
                      (Some l, Some t) \<Rightarrow> (l, t)
                    | _ \<Rightarrow> (defaultLeft r, defaultTop r))
      in r\<lparr> widthRatio := cropWidth, heightRatio := cropHeight,
             left_opt := Some (clamp l 0 (1 - cropWidth)),
             top_opt := Some (clamp t 0 (1 - cropHeight)) \<rparr>)"

definition updateRectSizeFromVideo :: "video \<Rightarrow> state \<Rightarrow> state" where
  "updateRectSizeFromVideo v s =
     (if videoWidth v = 0 \<or> videoHeight v = 0 then s
      else
        let cropWidth = TARGET_ASPECT_width / real (videoWidth v);
            cropHeight = TARGET_ASPECT_height / real (videoHeight v)
        in s\<lparr> minWidthRatio :=
                 min (max (cropWidth * 0.5) 0.03) (if cropWidth = 0 then 0.12 else cropWidth),
               rectangles := (\<lambda>i. sizeRect cropWidth cropHeight (rectangles s i)) \<rparr>)"

subsection \<open>Pointer handlers\<close>

definition pointerDown :: "pointer_event \<Rightarrow> rect_id \<Rightarrow> state \<Rightarrow> state" where
  "pointerDown ev i s =
     (case (left_opt (rectangles s i), top_opt (rectangles s i)) of
        (Some l, Some t) \<Rightarrow>
          s\<lparr> interaction := Some (Move i
                \<lparr> start_clientX = clientX ev, start_clientY = clientY ev,
                  start_left = l, start_top = t \<rparr>
                (pointerId ev) (RectElement i)) \<rparr>
      | _ \<Rightarrow> s)"

definition pointerDownResize :: "video \<Rightarrow> pointer_event \<Rightarrow> rect_id \<Rightarrow> handle \<Rightarrow> state \<Rightarrow> state" where
  "pointerDownResize v ev i h s =
     (case (left_opt (rectangles s i), top_opt (rectangles s i)) of
        (Some l, Some t) \<Rightarrow>
          (case getVideoMetrics v of
             None \<Rightarrow> s
           | Some (mw, mh) \<Rightarrow>
               s\<lparr> interaction := Some (Resize i h
                     \<lparr> start_leftRatio = l, start_topRatio = t,
                       start_widthRatio = widthRatio (rectangles s i),
                       start_heightRatio = heightRatio (rectangles s i),
                       start_leftPx = l * mw, start_topPx = t * mh,
                       start_widthPx = widthRatio (rectangles s i) * mw,
                       start_heightPx = heightRatio (rectangles s i) * mh \<rparr>
                     (pointerId ev) (HandleElement i h)) \<rparr>)
      | _ \<Rightarrow> s)"

definition getPointerRatio :: "dom_rect \<Rightarrow> pointer_event \<Rightarrow> (real \<times> real) option" where
  "getPointerRatio b ev =
     (if bounds_width b = 0 \<or> bounds_height b = 0 then None
      else Some (clamp ((clientX ev - bounds_left b) / bounds_width b) 0 1,
                 clamp ((clientY ev - bounds_top b) / bounds_height b) 0 1))"

text \<open>
  The two closures of \<open>resizeRect\<close>; the variables they capture (\<open>metrics\<close>,
  \<open>minWidthPx\<close> and the rectangle) are arguments.
\<close>

definition applyValues :: "real \<times> real \<Rightarrow> real \<Rightarrow> rect \<Rightarrow> real \<Rightarrow> real \<Rightarrow> real \<Rightarrow> rect" where
  "applyValues metrics minWidthPx r leftPx topPx widthPx =
     (let boundedWidthPx = clamp widthPx minWidthPx (fst metrics);
          heightPx = boundedWidthPx / TARGET_ASPECT_RATIO;
          maxLeftPx = max (fst metrics - boundedWidthPx) 0;
          maxTopPx = max (snd metrics - heightPx) 0;
          safeLeftPx = clamp leftPx 0 maxLeftPx;
          safeTopPx = clamp topPx 0 maxTopPx
      in r\<lparr> widthRatio := boundedWidthPx / fst metrics,
             heightRatio := heightPx / snd metrics,
             left_opt := Some (safeLeftPx / fst metrics),
             top_opt := Some (safeTopPx / snd metrics) \<rparr>)"

definition computeWidthPx :: "real \<times> real \<Rightarrow> real \<Rightarrow> real \<Rightarrow> real \<Rightarrow> real \<Rightarrow> real" where
  "computeWidthPx metrics minWidthPx dxPx dyPx boundPx =
     (let widthFromX = max dxPx 0;
          widthFromY = max dyPx 0 * TARGET_ASPECT_RATIO;
          candidate = min widthFromX widthFromY;
          maxWidthPx = max (min boundPx (fst metrics)) minWidthPx
      in clamp candidate minWidthPx maxWidthPx)"

definition minWidthPxOf :: "real \<Rightarrow> real \<times> real \<Rightarrow> real" where
  "minWidthPxOf mwr metrics = max (min mwr 1) 0.02 * fst metrics"

text \<open>
  \<open>resizeRect\<close> after its guard on the metrics: the new fields of the dragged rectangle,
  one case of the \<open>switch\<close> per handle.
\<close>

definition resizeCase :: "real \<times> real \<Rightarrow> real \<Rightarrow> handle \<Rightarrow> resize_start \<Rightarrow> real \<times> real \<Rightarrow> rect \<Rightarrow> rect" where
  "resizeCase metrics minWidthPx h start pointerPx r =
     (case h of
        TopLeft \<Rightarrow>
          (let anchorX = start_leftPx start + start_widthPx start;
               anchorY = start_topPx start + start_heightPx start;
               dxPx = anchorX - fst pointerPx;
               dyPx = anchorY - snd pointerPx;
               boundsWidthPx = min anchorX (anchorY * TARGET_ASPECT_RATIO);
               newWidthPx = computeWidthPx metrics minWidthPx dxPx dyPx boundsWidthPx;
               newLeftPx = anchorX - newWidthPx;
               newTopPx = anchorY - newWidthPx / TARGET_ASPECT_RATIO
           in applyValues metrics minWidthPx r newLeftPx newTopPx newWidthPx)
      | TopRight \<Rightarrow>
          (let anchorX = start_leftPx start;
               anchorY = start_topPx start + start_heightPx start;
               dxPx = fst pointerPx - anchorX;
               dyPx = anchorY - snd pointerPx;
               boundsWidthPx = min (fst metrics - anchorX) (anchorY * TARGET_ASPECT_RATIO);
               newWidthPx = computeWidthPx metrics minWidthPx dxPx dyPx boundsWidthPx;
               newLeftPx = anchorX;
               newTopPx = anchorY - newWidthPx / TARGET_ASPECT_RATIO
           in applyValues metrics minWidthPx r newLeftPx newTopPx newWidthPx)
      | BottomLeft \<Rightarrow>
          (let anchorX = start_leftPx start + start_widthPx start;
               anchorY = start_topPx start;
               dxPx = anchorX - fst pointerPx;
               dyPx = snd pointerPx - anchorY;
               boundsWidthPx = min anchorX ((snd metrics - anchorY) * TARGET_ASPECT_RATIO);
               newWidthPx = computeWidthPx metrics minWidthPx dxPx dyPx boundsWidthPx;
               newLeftPx = anchorX - newWidthPx;
               newTopPx = anchorY
           in applyValues metrics minWidthPx r newLeftPx newTopPx newWidthPx)
      | BottomRight \<Rightarrow>
          (let anchorX = start_leftPx start;
               anchorY = start_topPx start;
               dxPx = fst pointerPx - anchorX;
               dyPx = snd pointerPx - anchorY;
               boundsWidthPx = min (fst metrics - anchorX)
                                   ((snd metrics - anchorY) * TARGET_ASPECT_RATIO);
               newWidthPx = computeWidthPx metrics minWidthPx dxPx dyPx boundsWidthPx;
               newLeftPx = anchorX;
               newTopPx = anchorY
           in applyValues metrics minWidthPx r newLeftPx newTopPx newWidthPx))"

definition resizeRect :: "video \<Rightarrow> rect_id \<Rightarrow> handle \<Rightarrow> resize_start \<Rightarrow> real \<times> real \<Rightarrow> state \<Rightarrow> state" where
  "resizeRect v i h start pointRatio s =
     (case getVideoMetrics v of
        None \<Rightarrow> s
      | Some metrics \<Rightarrow>
          (let pointerPx = (fst pointRatio * fst metrics, snd pointRatio * snd metrics);
               minWidthPx = minWidthPxOf (minWidthRatio s) metrics
           in s\<lparr> rectangles := (rectangles s)
                    (i := resizeCase metrics minWidthPx h start pointerPx (rectangles s i)) \<rparr>))"

definition pointerMove :: "video \<Rightarrow> dom_rect \<Rightarrow> pointer_event \<Rightarrow> state \<Rightarrow> state" where
  "pointerMove v b ev s =
     (case interaction s of
        None \<Rightarrow> s
      | Some (Move i start pid tgt) \<Rightarrow>
          (if bounds_width b = 0 \<or> bounds_height b = 0 then s
           else
             let deltaX = (clientX ev - start_clientX start) / bounds_width b;
                 deltaY = (clientY ev - start_clientY start) / bounds_height b;
                 r = rectangles s i
             in s\<lparr> rectangles := (rectangles s)
                      (i := r\<lparr> left_opt := Some (clamp (start_left start + deltaX) 0
                                                      (1 - widthRatio r)),
                                top_opt := Some (clamp (start_top start + deltaY) 0
                                                      (1 - heightRatio r)) \<rparr>) \<rparr>)
      | Some (Resize i h start pid tgt) \<Rightarrow>
          (case getPointerRatio b ev of
             None \<Rightarrow> s
           | Some point \<Rightarrow> resizeRect v i h start point s))"

definition endDrag :: "state \<Rightarrow> state" where
  "endDrag s = s\<lparr> interaction := None \<rparr>"

subsection \<open>Submission\<close>

















subsection \<open>Events and pixel coordinates\<close>

text \<open>The \<open>metrics\<close> object of a video whose dimensions are known.\<close>

definition metricsOf :: "video \<Rightarrow> real \<times> real" where
  "metricsOf v = (real (videoWidth v), real (videoHeight v))"

text \<open>
  The \<open>pointerPx\<close> object of \<open>resizeRect\<close> for a pointer event: the pointer ratio of
  \<open>getPointerRatio\<close> scaled by the video dimensions.
\<close>

definition eventPx :: "video \<Rightarrow> dom_rect \<Rightarrow> pointer_event \<Rightarrow> real \<times> real" where
  "eventPx v b ev =
     (clamp ((clientX ev - bounds_left b) / bounds_width b) 0 1 * real (videoWidth v),
      clamp ((clientY ev - bounds_top b) / bounds_height b) 0 1 * real (videoHeight v))"

text \<open>
  The listeners the script registers. A pointer-down on a handle runs \<open>pointerDownResize\<close>
  first; the handle is a child of the rectangle's element, so the event then bubbles to
  the \<open>pointerDown\<close> listener of the rectangle unless \<open>pointerDownResize\<close> reached its
  \<open>stopPropagation\<close>, which it does exactly when it did not return early.
\<close>

datatype event =
  LoadedMetadata
| PointerDownRect pointer_event rect_id
| PointerDownHandle pointer_event rect_id handle
| PointerMoveDoc dom_rect pointer_event
| PointerUp
| PointerCancel

fun step :: "video \<Rightarrow> state \<Rightarrow> event \<Rightarrow> state" where
  "step v s LoadedMetadata = updateRectSizeFromVideo v s"
| "step v s (PointerDownRect ev i) = pointerDown ev i s"
| "step v s (PointerDownHandle ev i h) =
     (case (left_opt (rectangles s i), top_opt (rectangles s i), getVideoMetrics v) of
        (Some l, Some t, Some m) \<Rightarrow> pointerDownResize v ev i h s
      | _ \<Rightarrow> pointerDown ev i (pointerDownResize v ev i h s))"
| "step v s (PointerMoveDoc b ev) = pointerMove v b ev s"
| "step v s PointerUp = endDrag s"
| "step v s PointerCancel = endDrag s"

text \<open>The state after a sequence of events on a page whose video does not change.\<close>

definition run :: "video \<Rightarrow> event list \<Rightarrow> state" where
  "run v evs = foldl (step v) initial_state evs"

text \<open>The state after a sequence of pointer-move events, each with the overlay bounds it saw.\<close>

definition pointerMoves :: "video \<Rightarrow> (dom_rect \<times> pointer_event) list \<Rightarrow> state \<Rightarrow> state" where
  "pointerMoves v moves s = foldl (\<lambda>s' (b, ev). pointerMove v b ev s') s moves"

subsection \<open>The resize algorithm in the words of the specification\<close>

text \<open>
  The specification describes a resize by an anchor (the corner opposite the dragged
  handle, as the rectangle was when the interaction began), the distance from the anchor
  to the pointer oriented so that growing away from the anchor is positive, the bound
  that the frame edges put on the width, and the corner that follows from the anchor and
  the new width. These definitions follow that description; the lemmas below relate them
  to \<open>resizeCase\<close>, which is the code.
\<close>

definition spec_anchorPx :: "handle \<Rightarrow> resize_start \<Rightarrow> real \<times> real" where
  "spec_anchorPx h start =
     (case h of
        TopLeft \<Rightarrow> (start_leftPx start + start_widthPx start, start_topPx start + start_heightPx start)
      | TopRight \<Rightarrow> (start_leftPx start, start_topPx start + start_heightPx start)
      | BottomLeft \<Rightarrow> (start_leftPx start + start_widthPx start, start_topPx start)
      | BottomRight \<Rightarrow> (start_leftPx start, start_topPx start))"

definition spec_distancePx :: "handle \<Rightarrow> real \<times> real \<Rightarrow> real \<times> real \<Rightarrow> real \<times> real" where
  "spec_distancePx h anchor pointerPx =
     (case h of
        TopLeft \<Rightarrow> (fst anchor - fst pointerPx, snd anchor - snd pointerPx)
      | TopRight \<Rightarrow> (fst pointerPx - fst anchor, snd anchor - snd pointerPx)
      | BottomLeft \<Rightarrow> (fst anchor - fst pointerPx, snd pointerPx - snd anchor)
      | BottomRight \<Rightarrow> (fst pointerPx - fst anchor, snd pointerPx - snd anchor))"

definition spec_edgeBoundPx :: "real \<times> real \<Rightarrow> handle \<Rightarrow> real \<times> real \<Rightarrow> real" where
  "spec_edgeBoundPx metrics h anchor =
     (case h of
        TopLeft \<Rightarrow> min (fst anchor) (snd anchor * TARGET_ASPECT_RATIO)
      | TopRight \<Rightarrow> min (fst metrics - fst anchor) (snd anchor * TARGET_ASPECT_RATIO)
      | BottomLeft \<Rightarrow> min (fst anchor) ((snd metrics - snd anchor) * TARGET_ASPECT_RATIO)
      | BottomRight \<Rightarrow> min (fst metrics - fst anchor)
                           ((snd metrics - snd anchor) * TARGET_ASPECT_RATIO))"


definition spec_newCornerPx :: "handle \<Rightarrow> real \<times> real \<Rightarrow> real \<Rightarrow> real \<times> real" where
  "spec_newCornerPx h anchor w =
     (case h of
        TopLeft \<Rightarrow> (fst anchor - w, snd anchor - w / TARGET_ASPECT_RATIO)
      | TopRight \<Rightarrow> (fst anchor, snd anchor - w / TARGET_ASPECT_RATIO)
      | BottomLeft \<Rightarrow> (fst anchor - w, snd anchor)
      | BottomRight \<Rightarrow> (fst anchor, snd anchor))"

text \<open>
  The corner of a placed rectangle that a drag of handle \<open>h\<close> has to keep fixed (the corner
  opposite the handle), in video pixels.
\<close>

definition spec_cornerPx :: "real \<times> real \<Rightarrow> handle \<Rightarrow> rect \<Rightarrow> (real \<times> real) option" where
  "spec_cornerPx metrics h r =
     (case (left_opt r, top_opt r) of
        (Some l, Some t) \<Rightarrow>
          Some (case h of
             TopLeft \<Rightarrow> ((l + widthRatio r) * fst metrics, (t + heightRatio r) * snd metrics)
           | TopRight \<Rightarrow> (l * fst metrics, (t + heightRatio r) * snd metrics)
           | BottomLeft \<Rightarrow> ((l + widthRatio r) * fst metrics, t * snd metrics)
           | BottomRight \<Rightarrow> (l * fst metrics, t * snd metrics))
      | _ \<Rightarrow> None)"



subsection \<open>Predicates and invariants\<close>

text \<open>The target ratio holds between the pixel width and the pixel height of a rectangle.\<close>

definition pixelAspectLocked :: "video \<Rightarrow> rect \<Rightarrow> bool" where
  "pixelAspectLocked v r \<longleftrightarrow>
     (widthRatio r * real (videoWidth v)) / (heightRatio r * real (videoHeight v))
       = TARGET_ASPECT_RATIO"

text \<open>Full containment of a placed rectangle in the frame.\<close>

definition withinFrame :: "rect \<Rightarrow> bool" where
  "withinFrame r =
     (case (left_opt r, top_opt r) of
        (Some l, Some t) \<Rightarrow> 0 \<le> l \<and> 0 \<le> t \<and> l + widthRatio r \<le> 1 \<and> t + heightRatio r \<le> 1
      | _ \<Rightarrow> False)"

text \<open>A rectangle is placed once its \<open>left\<close> and \<open>top\<close> are not \<open>null\<close>.\<close>

definition positioned :: "rect \<Rightarrow> bool" where
  "positioned r \<longleftrightarrow> left_opt r \<noteq> None \<and> top_opt r \<noteq> None"

text \<open>
  Either nothing has been sized yet (and nothing is being dragged), or the video metrics
  are known and every rectangle is placed and holds the target ratio in pixels.
\<close>

definition inv_lock :: "video \<Rightarrow> state \<Rightarrow> bool" where
  "inv_lock v s \<longleftrightarrow>
     ((\<forall>i. \<not> positioned (rectangles s i)) \<and> interaction s = None)
     \<or> (videoWidth v \<noteq> 0 \<and> videoHeight v \<noteq> 0
         \<and> (\<forall>i. positioned (rectangles s i) \<and> pixelAspectLocked v (rectangles s i)))"

text \<open>
  A rectangle that lies within the frame, holds the target ratio in pixels and is at least
  as wide as the floor of \<open>resizeRect\<close>; and the same for the pixel values recorded at the
  start of a resize.
\<close>

definition goodRect :: "video \<Rightarrow> real \<Rightarrow> rect \<Rightarrow> bool" where
  "goodRect v mwr r \<longleftrightarrow>
     withinFrame r \<and> pixelAspectLocked v r
     \<and> minWidthPxOf mwr (metricsOf v) \<le> widthRatio r * real (videoWidth v)"

definition goodStart :: "real \<times> real \<Rightarrow> real \<Rightarrow> resize_start \<Rightarrow> bool" where
  "goodStart metrics minWidthPx start \<longleftrightarrow>
     0 \<le> start_leftPx start \<and> 0 \<le> start_topPx start
     \<and> start_leftPx start + start_widthPx start \<le> fst metrics
     \<and> start_topPx start + start_heightPx start \<le> snd metrics
     \<and> start_widthPx start = start_heightPx start * TARGET_ASPECT_RATIO
     \<and> minWidthPx \<le> start_widthPx start"

text \<open>The \<open>minWidthRatio\<close> that \<open>updateRectSizeFromVideo\<close> computes for a video.\<close>

definition cropFloor :: "video \<Rightarrow> real" where
  "cropFloor v = min (max (TARGET_ASPECT_width / real (videoWidth v) * 0.5) 0.03)
                     (TARGET_ASPECT_width / real (videoWidth v))"

text \<open>
  Videos in which the target box fits and whose width does not push the absolute floor
  of 0.02 above the target box.
\<close>

definition goodVideo :: "video \<Rightarrow> bool" where
  "goodVideo v \<longleftrightarrow> 1100 \<le> videoWidth v \<and> videoWidth v \<le> 55000 \<and> 1000 \<le> videoHeight v"

definition inv_good :: "video \<Rightarrow> state \<Rightarrow> bool" where
  "inv_good v s \<longleftrightarrow>
     ((\<forall>i. \<not> positioned (rectangles s i)) \<and> interaction s = None)
     \<or> (minWidthRatio s = cropFloor v
         \<and> (\<forall>i. goodRect v (cropFloor v) (rectangles s i))
         \<and> (\<forall>i h start pid tgt. interaction s = Some (Resize i h start pid tgt) \<longrightarrow>
               goodStart (metricsOf v) (minWidthPxOf (cropFloor v) (metricsOf v)) start))"

text \<open>
  Once the rectangles are sized, \<open>minWidthRatio\<close> is the value computed for the video and
  every rectangle is at least as wide as the floor of \<open>resizeRect\<close>, for every video at
  most 55000 pixels wide.
\<close>

definition inv_floor :: "video \<Rightarrow> state \<Rightarrow> bool" where
  "inv_floor v s \<longleftrightarrow>
     ((\<forall>i. \<not> positioned (rectangles s i)) \<and> interaction s = None)
     \<or> (minWidthRatio s = cropFloor v
         \<and> (\<forall>i. minWidthPxOf (cropFloor v) (metricsOf v)
                  \<le> widthRatio (rectangles s i) * real (videoWidth v)))"


subsection \<open>Scenarios\<close>

text \<open>Concrete inputs and the states they lead to, for the scenarios checked below.\<close>

definition video_1920_1080 :: video where
  "video_1920_1080 = \<lparr> videoWidth = 1920, videoHeight = 1080 \<rparr>"

definition overlay_960_540 :: dom_rect where
  "overlay_960_540 = \<lparr> bounds_left = 0, bounds_top = 0, bounds_width = 960, bounds_height = 540 \<rparr>"

definition sized_1920_1080 :: state where
  "sized_1920_1080 = updateRectSizeFromVideo video_1920_1080 initial_state"

definition event_at :: "real \<Rightarrow> real \<Rightarrow> int \<Rightarrow> pointer_event" where
  "event_at x y p = \<lparr> clientX = x, clientY = y, pointerId = p \<rparr>"

definition moving_1920_1080 :: state where
  "moving_1920_1080 = pointerDown (event_at 100 100 1) RectSpeaker1 sized_1920_1080"

definition video_3840_2160 :: video where
  "video_3840_2160 = \<lparr> videoWidth = 3840, videoHeight = 2160 \<rparr>"

definition resizing_3840_2160 :: state where
  "resizing_3840_2160 =
     pointerDownResize video_3840_2160 (event_at 458 466 1) RectSpeaker1 BottomRight
       (updateRectSizeFromVideo video_3840_2160 initial_state)"

definition start_3840_2160 :: resize_start where
  "start_3840_2160 = \<lparr> start_leftRatio = 0.05, start_topRatio = 0.1,
     start_widthRatio = 1100 / 3840, start_heightRatio = 1000 / 2160,
     start_leftPx = 192, start_topPx = 216, start_widthPx = 1100, start_heightPx = 1000 \<rparr>"




definition resizing_1920_1080 :: state where
  "resizing_1920_1080 =
     pointerDownResize video_1920_1080 (event_at 624 580 1) RectSpeaker1 BottomRight sized_1920_1080"

definition start_1920_1080 :: resize_start where
  "start_1920_1080 = \<lparr> start_leftRatio = 0.05, start_topRatio = 2 / 27,
     start_widthRatio = 1100 / 1920, start_heightRatio = 1000 / 1080,
     start_leftPx = 96, start_topPx = 80, start_widthPx = 1100, start_heightPx = 1000 \<rparr>"

definition resized_1920_1080 :: state where
  "resized_1920_1080 =
     pointerMove video_1920_1080 overlay_960_540 (event_at 480 270 1) resizing_1920_1080"

definition events_resize_1920_1080 :: "event list" where
  "events_resize_1920_1080 =
     [LoadedMetadata,
      PointerDownHandle (event_at 624 580 1) RectSpeaker1 BottomRight,
      PointerMoveDoc overlay_960_540 (event_at 480 270 1)]"

definition video_320_240 :: video where
  "video_320_240 = \<lparr> videoWidth = 320, videoHeight = 240 \<rparr>"

definition sized_320_240 :: state where
  "sized_320_240 = updateRectSizeFromVideo video_320_240 initial_state"

definition resizing_320_240 :: state where
  "resizing_320_240 =
     pointerDownResize video_320_240 (event_at 960 540 1) RectSpeaker1 BottomRight sized_320_240"

definition start_320_240 :: resize_start where
  "start_320_240 = \<lparr> start_leftRatio = 0, start_topRatio = 0,
     start_widthRatio = 1100 / 320, start_heightRatio = 1000 / 240,
     start_leftPx = 0, start_topPx = 0, start_widthPx = 1100, start_heightPx = 1000 \<rparr>"

definition resized_320_240 :: state where
  "resized_320_240 =
     pointerMove video_320_240 overlay_960_540 (event_at 480 270 1) resizing_320_240"

definition resized_3840_2160 :: state where
  "resized_3840_2160 =
     pointerMove video_3840_2160 overlay_960_540 (event_at 0 0 1) resizing_3840_2160"

definition video_1280_720 :: video where
  "video_1280_720 = \<lparr> videoWidth = 1280, videoHeight = 720 \<rparr>"

definition sized_1280_720 :: state where
  "sized_1280_720 = updateRectSizeFromVideo video_1280_720 initial_state"

definition resizing_1280_720 :: state where
  "resizing_1280_720 =
     pointerDownResize video_1280_720 (event_at 48 0 1) RectSpeaker1 TopLeft sized_1280_720"

definition start_1280_720 :: resize_start where
  "start_1280_720 = \<lparr> start_leftRatio = 0.05, start_topRatio = 0,
     start_widthRatio = 1100 / 1280, start_heightRatio = 1000 / 720,
     start_leftPx = 64, start_topPx = 0, start_widthPx = 1100, start_heightPx = 1000 \<rparr>"

definition resized_1280_720 :: state where
  "resized_1280_720 =
     pointerMove video_1280_720 overlay_960_540 (event_at 480 270 1) resizing_1280_720"

definition events_sized_1920_1080 :: "event list" where
  "events_sized_1920_1080 = [LoadedMetadata]"

definition resizing_top_left_1920_1080 :: state where
  "resizing_top_left_1920_1080 =
     pointerDownResize video_1920_1080 (event_at 48 40 1) RectSpeaker1 TopLeft sized_1920_1080"









definition overlay_0_0 :: dom_rect where
  "overlay_0_0 = \<lparr> bounds_left = 0, bounds_top = 0, bounds_width = 0, bounds_height = 0 \<rparr>"

definition moving_1280_720 :: state where
  "moving_1280_720 = pointerDown (event_at 100 100 1) RectSpeaker1 sized_1280_720"

section \<open>Properties\<close>

subsection \<open>Clamping, the floor and the candidate width\<close>

lemma clamp_lower: "lo \<le> clamp v lo hi"
  by (simp add: clamp_def)

lemma clamp_upper: "lo \<le> hi \<Longrightarrow> clamp v lo hi \<le> hi"
  by (simp add: clamp_def)

lemma clamp_id: "lo \<le> v \<Longrightarrow> v \<le> hi \<Longrightarrow> clamp v lo hi = v"
  by (simp add: clamp_def)

lemma TARGET_ASPECT_RATIO_pos: "0 < TARGET_ASPECT_RATIO"
  by (simp add: TARGET_ASPECT_RATIO_def TARGET_ASPECT_width_def TARGET_ASPECT_height_def)

lemma TARGET_ASPECT_RATIO_value: "TARGET_ASPECT_RATIO = 11 / 10"
  by (simp add: TARGET_ASPECT_RATIO_def TARGET_ASPECT_width_def TARGET_ASPECT_height_def)

lemma minWidthPxOf_pos: "0 < fst m \<Longrightarrow> 0 < minWidthPxOf mwr m"
  by (simp add: minWidthPxOf_def max_def)

lemma minWidthPxOf_le: "0 < fst m \<Longrightarrow> minWidthPxOf mwr m \<le> fst m"
  by (simp add: minWidthPxOf_def max_def min_def)

lemma computeWidthPx_lower: "lo \<le> computeWidthPx m lo dx dy b"
  by (simp add: computeWidthPx_def Let_def clamp_lower)

lemma computeWidthPx_upper: "computeWidthPx m lo dx dy b \<le> max (min b (fst m)) lo"
  by (simp add: computeWidthPx_def Let_def clamp_upper)

lemma computeWidthPx_le_width: "lo \<le> fst m \<Longrightarrow> computeWidthPx m lo dx dy b \<le> fst m"
  using computeWidthPx_upper [of m lo dx dy b] by simp

subsection \<open>Sizing from the video\<close>

lemma sizeRect_sizes:
  "widthRatio (sizeRect cw ch r) = cw" "heightRatio (sizeRect cw ch r) = ch"
  by (simp_all add: sizeRect_def split: option.splits prod.splits)

text \<open>
  Claim C7. Whenever the video metrics are known, \<open>updateRectSizeFromVideo\<close> sizes both
  rectangles by dividing the fixed target box by each video dimension on its own:
  the width ratio is \<open>1100 / videoWidth\<close> and the height ratio is \<open>1000 / videoHeight\<close>.
  For a video of 1920 by 1080 pixels both rectangles get the width ratio \<open>1100 / 1920\<close>,
  about 0.5729, and the height ratio \<open>1000 / 1080\<close>, about 0.9259.
\<close>

theorem updateRectSizeFromVideo_fits_target_box:
  assumes "videoWidth v \<noteq> 0" and "videoHeight v \<noteq> 0"
  shows "widthRatio (rectangles (updateRectSizeFromVideo v s) i)
           = TARGET_ASPECT_width / real (videoWidth v)
       \<and> heightRatio (rectangles (updateRectSizeFromVideo v s) i)
           = TARGET_ASPECT_height / real (videoHeight v)"
  using assms by (simp add: updateRectSizeFromVideo_def Let_def sizeRect_sizes)

theorem updateRectSizeFromVideo_1920_1080:
  "videoWidth video_1920_1080 \<noteq> 0 \<and> videoHeight video_1920_1080 \<noteq> 0
   \<and> (\<forall>i. widthRatio (rectangles (updateRectSizeFromVideo video_1920_1080 initial_state) i) = 1100 / 1920
        \<and> heightRatio (rectangles (updateRectSizeFromVideo video_1920_1080 initial_state) i) = 1000 / 1080)
   \<and> \<bar>1100 / 1920 - 0.5729 :: real\<bar> < 0.0001 \<and> \<bar>1000 / 1080 - 0.9259 :: real\<bar> < 0.0001"
proof -
  have w: "videoWidth video_1920_1080 \<noteq> 0" and h: "videoHeight video_1920_1080 \<noteq> 0"
    by (simp_all add: video_1920_1080_def)
  show ?thesis
    using w h updateRectSizeFromVideo_fits_target_box [OF w h, of initial_state]
    by (simp add: video_1920_1080_def TARGET_ASPECT_width_def TARGET_ASPECT_height_def)
qed

subsection \<open>Moving a rectangle\<close>

lemma pointerMove_Move_zero_bounds:
  "interaction s = Some (Move i start pid tgt) \<Longrightarrow> bounds_width b = 0 \<or> bounds_height b = 0
     \<Longrightarrow> pointerMove v b ev s = s"
  by (auto simp: pointerMove_def)

lemma pointerMove_Move:
  "interaction s = Some (Move i start pid tgt) \<Longrightarrow> bounds_width b \<noteq> 0 \<Longrightarrow> bounds_height b \<noteq> 0
     \<Longrightarrow> pointerMove v b ev s =
         s\<lparr> rectangles := (rectangles s)
              (i := (rectangles s i)
                 \<lparr> left_opt := Some (clamp (start_left start
                        + (clientX ev - start_clientX start) / bounds_width b) 0
                        (1 - widthRatio (rectangles s i))),
                   top_opt := Some (clamp (start_top start
                        + (clientY ev - start_clientY start) / bounds_height b) 0
                        (1 - heightRatio (rectangles s i))) \<rparr>) \<rparr>"
  by (simp add: pointerMove_def Let_def)

lemma pointerMove_interaction: "interaction (pointerMove v b ev s) = interaction s"
  by (simp add: pointerMove_def resizeRect_def Let_def
      split: option.splits interaction.splits)

lemma pointerMove_Move_sizes:
  assumes "interaction s = Some (Move i start pid tgt)"
  shows "widthRatio (rectangles (pointerMove v b ev s) j) = widthRatio (rectangles s j)"
    and "heightRatio (rectangles (pointerMove v b ev s) j) = heightRatio (rectangles s j)"
  using assms by (simp_all add: pointerMove_def Let_def)

lemma pointerMove_Move_other:
  assumes "interaction s = Some (Move i start pid tgt)" and "j \<noteq> i"
  shows "rectangles (pointerMove v b ev s) j = rectangles s j"
  using assms by (simp add: pointerMove_def Let_def)

lemma pointerMove_Move_no_drift:
  assumes m: "interaction s = Some (Move i start pid tgt)"
    and b: "bounds_width b \<noteq> 0" "bounds_height b \<noteq> 0"
  shows "pointerMove v b ev (pointerMove v' b' ev' s) = pointerMove v b ev s"
proof (cases "bounds_width b' = 0 \<or> bounds_height b' = 0")
  case True
  with m show ?thesis by (simp add: pointerMove_Move_zero_bounds)
next
  case False
  then have b': "bounds_width b' \<noteq> 0" "bounds_height b' \<noteq> 0" by simp_all
  let ?s1 = "pointerMove v' b' ev' s"
  have m1: "interaction ?s1 = Some (Move i start pid tgt)"
    using m by (simp add: pointerMove_interaction)
  have w: "widthRatio (rectangles ?s1 i) = widthRatio (rectangles s i)"
    and h: "heightRatio (rectangles ?s1 i) = heightRatio (rectangles s i)"
    using m by (simp_all add: pointerMove_Move_sizes)
  show ?thesis
    unfolding pointerMove_Move [OF m1 b] w h
    unfolding pointerMove_Move [OF m b'] pointerMove_Move [OF m b]
    by simp
qed

lemma pointerDown_positioned:
  "left_opt (rectangles s i) = Some l \<Longrightarrow> top_opt (rectangles s i) = Some t \<Longrightarrow>
   pointerDown ev i s = s\<lparr> interaction := Some (Move i
       \<lparr> start_clientX = clientX ev, start_clientY = clientY ev, start_left = l, start_top = t \<rparr>
       (pointerId ev) (RectElement i)) \<rparr>"
  by (simp add: pointerDown_def)

lemma clamp_unit: "clamp x 0 (1 - w) = (if 1 < w then 0 else min (max x 0) (1 - w))"
  by (simp add: clamp_def)

text \<open>
  Claim C8, as the code has it, in exact arithmetic. A pointer-move during a move
  interaction changes neither \<open>widthRatio\<close> nor \<open>heightRatio\<close> of any rectangle and leaves
  the other rectangle, the interaction and the minimum width alone. When the overlay has
  no size it changes nothing at all. Otherwise it sets \<open>left\<close> and \<open>top\<close> of the dragged
  rectangle from the origin recorded at pointer-down plus the total pointer delta since
  pointer-down, each axis on its own: when the size on that axis is at most 1 the value is
  \<open>min (max (origin + delta) 0) (1 - size)\<close>, which lies in \<open>[0, 1 - size]\<close>; when the size
  is larger than 1 the interval is empty and the value is 0. The deltas are not
  accumulated: an earlier pointer-move has no influence on the result of a later one.
  The recorded origin is the position the rectangle had at pointer-down.
\<close>

theorem pointerMove_moving_sets_origin_plus_total_delta:
  assumes "interaction s = Some (Move i start pid tgt)"
  shows "(\<forall>j. widthRatio (rectangles (pointerMove v b ev s) j) = widthRatio (rectangles s j)
            \<and> heightRatio (rectangles (pointerMove v b ev s) j) = heightRatio (rectangles s j))
       \<and> (\<forall>j. j \<noteq> i \<longrightarrow> rectangles (pointerMove v b ev s) j = rectangles s j)
       \<and> interaction (pointerMove v b ev s) = interaction s
       \<and> minWidthRatio (pointerMove v b ev s) = minWidthRatio s
       \<and> (bounds_width b = 0 \<or> bounds_height b = 0 \<longrightarrow> pointerMove v b ev s = s)
       \<and> (bounds_width b \<noteq> 0 \<and> bounds_height b \<noteq> 0 \<longrightarrow>
            left_opt (rectangles (pointerMove v b ev s) i)
              = Some (if 1 < widthRatio (rectangles s i) then 0
                      else min (max (start_left start
                                       + (clientX ev - start_clientX start) / bounds_width b) 0)
                               (1 - widthRatio (rectangles s i)))
          \<and> top_opt (rectangles (pointerMove v b ev s) i)
              = Some (if 1 < heightRatio (rectangles s i) then 0
                      else min (max (start_top start
                                       + (clientY ev - start_clientY start) / bounds_height b) 0)
                               (1 - heightRatio (rectangles s i)))
          \<and> (widthRatio (rectangles s i) \<le> 1 \<longrightarrow>
                (\<exists>l. left_opt (rectangles (pointerMove v b ev s) i) = Some l
                     \<and> 0 \<le> l \<and> l \<le> 1 - widthRatio (rectangles s i)))
          \<and> (heightRatio (rectangles s i) \<le> 1 \<longrightarrow>
                (\<exists>t. top_opt (rectangles (pointerMove v b ev s) i) = Some t
                     \<and> 0 \<le> t \<and> t \<le> 1 - heightRatio (rectangles s i)))
          \<and> (\<forall>v' b' ev'. pointerMove v b ev (pointerMove v' b' ev' s) = pointerMove v b ev s))
       \<and> (\<forall>s0 ev0 l t. left_opt (rectangles s0 i) = Some l \<and> top_opt (rectangles s0 i) = Some t \<longrightarrow>
            interaction (pointerDown ev0 i s0) = Some (Move i
              \<lparr> start_clientX = clientX ev0, start_clientY = clientY ev0,
                start_left = l, start_top = t \<rparr> (pointerId ev0) (RectElement i)))"
proof -
  let ?s' = "pointerMove v b ev s"
  let ?w = "widthRatio (rectangles s i)" and ?h = "heightRatio (rectangles s i)"
  let ?x = "start_left start + (clientX ev - start_clientX start) / bounds_width b"
  let ?y = "start_top start + (clientY ev - start_clientY start) / bounds_height b"
  have sizes: "\<forall>j. widthRatio (rectangles ?s' j) = widthRatio (rectangles s j)
            \<and> heightRatio (rectangles ?s' j) = heightRatio (rectangles s j)"
    using assms by (simp add: pointerMove_Move_sizes)
  have other: "\<forall>j. j \<noteq> i \<longrightarrow> rectangles ?s' j = rectangles s j"
    using assms by (simp add: pointerMove_Move_other)
  have inter: "interaction ?s' = interaction s"
    by (rule pointerMove_interaction)
  have mwr: "minWidthRatio ?s' = minWidthRatio s"
    using assms by (simp add: pointerMove_def Let_def)
  have zero: "bounds_width b = 0 \<or> bounds_height b = 0 \<longrightarrow> ?s' = s"
    using pointerMove_Move_zero_bounds [OF assms] by blast
  have pos: "bounds_width b \<noteq> 0 \<and> bounds_height b \<noteq> 0 \<longrightarrow>
            left_opt (rectangles ?s' i) = Some (if 1 < ?w then 0 else min (max ?x 0) (1 - ?w))
          \<and> top_opt (rectangles ?s' i) = Some (if 1 < ?h then 0 else min (max ?y 0) (1 - ?h))
          \<and> (?w \<le> 1 \<longrightarrow> (\<exists>l. left_opt (rectangles ?s' i) = Some l \<and> 0 \<le> l \<and> l \<le> 1 - ?w))
          \<and> (?h \<le> 1 \<longrightarrow> (\<exists>t. top_opt (rectangles ?s' i) = Some t \<and> 0 \<le> t \<and> t \<le> 1 - ?h))
          \<and> (\<forall>v' b' ev'. pointerMove v b ev (pointerMove v' b' ev' s) = ?s')"
  proof (intro impI)
    assume b: "bounds_width b \<noteq> 0 \<and> bounds_height b \<noteq> 0"
    then have l: "left_opt (rectangles ?s' i)
                    = Some (if 1 < ?w then 0 else min (max ?x 0) (1 - ?w))"
      and t: "top_opt (rectangles ?s' i)
                    = Some (if 1 < ?h then 0 else min (max ?y 0) (1 - ?h))"
      using assms by (simp_all add: pointerMove_Move clamp_unit)
    have li: "?w \<le> 1 \<longrightarrow> (\<exists>l. left_opt (rectangles ?s' i) = Some l \<and> 0 \<le> l \<and> l \<le> 1 - ?w)"
      unfolding l by simp
    have ti: "?h \<le> 1 \<longrightarrow> (\<exists>t. top_opt (rectangles ?s' i) = Some t \<and> 0 \<le> t \<and> t \<le> 1 - ?h)"
      unfolding t by simp
    have nd: "\<forall>v' b' ev'. pointerMove v b ev (pointerMove v' b' ev' s) = ?s'"
      using assms b by (simp add: pointerMove_Move_no_drift)
    from l t li ti nd
    show "left_opt (rectangles ?s' i) = Some (if 1 < ?w then 0 else min (max ?x 0) (1 - ?w))
          \<and> top_opt (rectangles ?s' i) = Some (if 1 < ?h then 0 else min (max ?y 0) (1 - ?h))
          \<and> (?w \<le> 1 \<longrightarrow> (\<exists>l. left_opt (rectangles ?s' i) = Some l \<and> 0 \<le> l \<and> l \<le> 1 - ?w))
          \<and> (?h \<le> 1 \<longrightarrow> (\<exists>t. top_opt (rectangles ?s' i) = Some t \<and> 0 \<le> t \<and> t \<le> 1 - ?h))
          \<and> (\<forall>v' b' ev'. pointerMove v b ev (pointerMove v' b' ev' s) = ?s')"
      by blast
  qed
  have down: "\<forall>s0 ev0 l t. left_opt (rectangles s0 i) = Some l \<and> top_opt (rectangles s0 i) = Some t \<longrightarrow>
            interaction (pointerDown ev0 i s0) = Some (Move i
              \<lparr> start_clientX = clientX ev0, start_clientY = clientY ev0,
                start_left = l, start_top = t \<rparr> (pointerId ev0) (RectElement i))"
    by (simp add: pointerDown_positioned)
  from sizes other inter mwr zero pos down show ?thesis by blast
qed

lemma sized_1920_1080_rect1:
  "rectangles sized_1920_1080 RectSpeaker1 =
     initial_rect1\<lparr> widthRatio := 1100 / 1920, heightRatio := 1000 / 1080,
                    left_opt := Some 0.05, top_opt := Some (2 / 27) \<rparr>"
  by (simp add: sized_1920_1080_def updateRectSizeFromVideo_def video_1920_1080_def
      initial_state_def initial_rect1_def sizeRect_def clamp_def Let_def
      TARGET_ASPECT_width_def TARGET_ASPECT_height_def)

lemma sized_1920_1080_rect2:
  "rectangles sized_1920_1080 RectSpeaker2 =
     initial_rect2\<lparr> widthRatio := 1100 / 1920, heightRatio := 1000 / 1080,
                    left_opt := Some (41 / 96), top_opt := Some (2 / 27) \<rparr>"
  by (simp add: sized_1920_1080_def updateRectSizeFromVideo_def video_1920_1080_def
      initial_state_def initial_rect2_def sizeRect_def clamp_def Let_def
      TARGET_ASPECT_width_def TARGET_ASPECT_height_def)

subsection \<open>Resizing: the width\<close>

lemma applyValues_fields:
  "widthRatio (applyValues m lo r l t w) = clamp w lo (fst m) / fst m"
  "heightRatio (applyValues m lo r l t w) = clamp w lo (fst m) / TARGET_ASPECT_RATIO / snd m"
  "left_opt (applyValues m lo r l t w)
     = Some (clamp l 0 (max (fst m - clamp w lo (fst m)) 0) / fst m)"
  "top_opt (applyValues m lo r l t w)
     = Some (clamp t 0 (max (snd m - clamp w lo (fst m) / TARGET_ASPECT_RATIO) 0) / snd m)"
  by (simp_all add: applyValues_def Let_def)


lemma resizeCase_applyValues:
  "resizeCase m lo h start p r =
     (let anchor = spec_anchorPx h start;
          d = spec_distancePx h anchor p;
          w = computeWidthPx m lo (fst d) (snd d) (spec_edgeBoundPx m h anchor);
          c = spec_newCornerPx h anchor w
      in applyValues m lo r (fst c) (snd c) w)"
  by (cases h)
     (simp_all add: resizeCase_def spec_anchorPx_def spec_distancePx_def spec_edgeBoundPx_def
        spec_newCornerPx_def Let_def)


subsection \<open>Resizing: what \<open>applyValues\<close> stores\<close>

lemma pointerMove_Resize:
  assumes "interaction s = Some (Resize i h start pid tgt)"
    and "videoWidth v \<noteq> 0" and "videoHeight v \<noteq> 0"
    and "bounds_width b \<noteq> 0" and "bounds_height b \<noteq> 0"
  shows "pointerMove v b ev s =
     s\<lparr> rectangles := (rectangles s)
          (i := resizeCase (metricsOf v) (minWidthPxOf (minWidthRatio s) (metricsOf v))
                  h start (eventPx v b ev) (rectangles s i)) \<rparr>"
  using assms
  by (simp add: pointerMove_def getPointerRatio_def resizeRect_def getVideoMetrics_def Let_def
      metricsOf_def eventPx_def)

lemma metricsOf_pos:
  "videoWidth v \<noteq> 0 \<Longrightarrow> 0 < fst (metricsOf v)"
  "videoHeight v \<noteq> 0 \<Longrightarrow> 0 < snd (metricsOf v)"
  by (simp_all add: metricsOf_def)

lemma metricsOf_sel:
  "fst (metricsOf v) = real (videoWidth v)" "snd (metricsOf v) = real (videoHeight v)"
  by (simp_all add: metricsOf_def)

lemma resizeCase_bounded:
  assumes W: "0 < fst m"
  shows "\<exists>w. minWidthPxOf mwr m \<le> w \<and> w \<le> fst m
           \<and> (\<exists>l t. resizeCase m (minWidthPxOf mwr m) h start p r
                      = applyValues m (minWidthPxOf mwr m) r l t w)"
proof -
  let ?lo = "minWidthPxOf mwr m"
  let ?a = "spec_anchorPx h start"
  let ?d = "spec_distancePx h ?a p"
  let ?w = "computeWidthPx m ?lo (fst ?d) (snd ?d) (spec_edgeBoundPx m h ?a)"
  have "?lo \<le> ?w" by (rule computeWidthPx_lower)
  moreover have "?w \<le> fst m"
    by (rule computeWidthPx_le_width) (rule minWidthPxOf_le [OF W])
  moreover have "resizeCase m ?lo h start p r
     = applyValues m ?lo r (fst (spec_newCornerPx h ?a ?w)) (snd (spec_newCornerPx h ?a ?w)) ?w"
    by (simp add: resizeCase_applyValues Let_def)
  ultimately show ?thesis by blast
qed

lemma applyValues_aspect:
  assumes W: "0 < fst m" and H: "0 < snd m" and lo: "0 < lo"
  shows "widthRatio (applyValues m lo r l t w) * fst m
           / (heightRatio (applyValues m lo r l t w) * snd m) = TARGET_ASPECT_RATIO"
proof -
  let ?bw = "clamp w lo (fst m)"
  have bw: "0 < ?bw" using lo clamp_lower [of lo w "fst m"] by simp
  have R: "0 < TARGET_ASPECT_RATIO" by (rule TARGET_ASPECT_RATIO_pos)
  have "widthRatio (applyValues m lo r l t w) * fst m = ?bw"
    using W by (simp add: applyValues_fields)
  moreover have "heightRatio (applyValues m lo r l t w) * snd m = ?bw / TARGET_ASPECT_RATIO"
    using H by (simp add: applyValues_fields)
  ultimately show ?thesis using bw R by simp
qed


lemma clamp_move_contained:
  "0 \<le> clamp x 0 (1 - w)" "clamp x 0 (1 - w) + w \<le> 1 \<longleftrightarrow> w \<le> 1"
  by (auto simp: clamp_def min_def max_def)

lemma moving_1920_1080_interaction:
  "interaction moving_1920_1080 = Some (Move RectSpeaker1
     \<lparr> start_clientX = 100, start_clientY = 100, start_left = 0.05, start_top = 2 / 27 \<rparr>
     1 (RectElement RectSpeaker1))"
  by (simp add: moving_1920_1080_def pointerDown_def sized_1920_1080_rect1 event_at_def)

lemma moving_1920_1080_rectangles: "rectangles moving_1920_1080 = rectangles sized_1920_1080"
  by (simp add: moving_1920_1080_def pointerDown_def sized_1920_1080_rect1)

lemma resizing_3840_2160_interaction:
  "interaction resizing_3840_2160 = Some (Resize RectSpeaker1 BottomRight start_3840_2160
     1 (HandleElement RectSpeaker1 BottomRight))"
  by (simp add: resizing_3840_2160_def pointerDownResize_def updateRectSizeFromVideo_def
      video_3840_2160_def initial_state_def initial_rect1_def sizeRect_def clamp_def Let_def
      TARGET_ASPECT_width_def TARGET_ASPECT_height_def getVideoMetrics_def event_at_def
      start_3840_2160_def)

lemma resizing_3840_2160_minWidthRatio: "minWidthRatio resizing_3840_2160 = 550 / 3840"
  by (simp add: resizing_3840_2160_def pointerDownResize_def updateRectSizeFromVideo_def
      video_3840_2160_def initial_state_def initial_rect1_def sizeRect_def clamp_def Let_def
      TARGET_ASPECT_width_def TARGET_ASPECT_height_def getVideoMetrics_def)

lemma video_3840_2160_sel:
  "videoWidth video_3840_2160 = 3840" "videoHeight video_3840_2160 = 2160"
  by (simp_all add: video_3840_2160_def)

lemma overlay_960_540_sel:
  "bounds_left overlay_960_540 = 0" "bounds_top overlay_960_540 = 0"
  "bounds_width overlay_960_540 = 960" "bounds_height overlay_960_540 = 540"
  by (simp_all add: overlay_960_540_def)












subsection \<open>The pixel aspect lock is an invariant\<close>

lemma sizeRect_positioned: "positioned (sizeRect cw ch r)"
  by (simp add: sizeRect_def positioned_def split: option.splits prod.splits)

lemma updateRectSizeFromVideo_locked:
  assumes "videoWidth v \<noteq> 0" and "videoHeight v \<noteq> 0"
  shows "pixelAspectLocked v (rectangles (updateRectSizeFromVideo v s) i)"
  using assms
  by (simp add: pixelAspectLocked_def updateRectSizeFromVideo_def Let_def sizeRect_sizes
      TARGET_ASPECT_RATIO_def)

lemma updateRectSizeFromVideo_positioned:
  assumes "videoWidth v \<noteq> 0" and "videoHeight v \<noteq> 0"
  shows "positioned (rectangles (updateRectSizeFromVideo v s) i)"
  using assms by (simp add: updateRectSizeFromVideo_def Let_def sizeRect_positioned)

lemma updateRectSizeFromVideo_unknown:
  "videoWidth v = 0 \<or> videoHeight v = 0 \<Longrightarrow> updateRectSizeFromVideo v s = s"
  by (auto simp: updateRectSizeFromVideo_def)

lemma pointerDown_rectangles: "rectangles (pointerDown ev i s) = rectangles s"
  by (simp add: pointerDown_def split: option.splits)

lemma pointerDownResize_rectangles: "rectangles (pointerDownResize v ev i h s) = rectangles s"
  by (simp add: pointerDownResize_def split: option.splits prod.splits)

lemma pointerDown_unpositioned: "\<not> positioned (rectangles s i) \<Longrightarrow> pointerDown ev i s = s"
  by (auto simp: pointerDown_def positioned_def split: option.splits)

lemma pointerDownResize_unpositioned:
  "\<not> positioned (rectangles s i) \<Longrightarrow> pointerDownResize v ev i h s = s"
  by (auto simp: pointerDownResize_def positioned_def split: option.splits)

lemma pointerMove_idle: "interaction s = None \<Longrightarrow> pointerMove v b ev s = s"
  by (simp add: pointerMove_def)

lemma pointerMove_Resize_unchanged:
  assumes "interaction s = Some (Resize i h start pid tgt)"
    and "videoWidth v = 0 \<or> videoHeight v = 0 \<or> bounds_width b = 0 \<or> bounds_height b = 0"
  shows "pointerMove v b ev s = s"
  using assms
  by (auto simp: pointerMove_def getPointerRatio_def resizeRect_def getVideoMetrics_def)

lemma pointerMove_Resize_locked:
  assumes "interaction s = Some (Resize i h start pid tgt)"
    and "videoWidth v \<noteq> 0" and "videoHeight v \<noteq> 0"
    and "bounds_width b \<noteq> 0" and "bounds_height b \<noteq> 0"
  shows "pixelAspectLocked v (rectangles (pointerMove v b ev s) i)"
proof -
  have W: "0 < fst (metricsOf v)" and H: "0 < snd (metricsOf v)"
    using assms(2,3) by (simp_all add: metricsOf_pos)
  obtain w l t where "resizeCase (metricsOf v) (minWidthPxOf (minWidthRatio s) (metricsOf v))
        h start (eventPx v b ev) (rectangles s i)
      = applyValues (metricsOf v) (minWidthPxOf (minWidthRatio s) (metricsOf v))
          (rectangles s i) l t w"
    using resizeCase_bounded [OF W] by blast
  then show ?thesis
    using applyValues_aspect [OF W H minWidthPxOf_pos [OF W]]
    by (simp add: pointerMove_Resize [OF assms] pixelAspectLocked_def metricsOf_sel)
qed

lemma pointerMove_Resize_positioned:
  assumes "interaction s = Some (Resize i h start pid tgt)"
    and "videoWidth v \<noteq> 0" and "videoHeight v \<noteq> 0"
    and "bounds_width b \<noteq> 0" and "bounds_height b \<noteq> 0"
  shows "positioned (rectangles (pointerMove v b ev s) i)"
  by (simp add: pointerMove_Resize [OF assms] resizeCase_applyValues Let_def positioned_def
      applyValues_fields)

lemma pointerMove_Resize_other:
  assumes "interaction s = Some (Resize i h start pid tgt)" and "j \<noteq> i"
  shows "rectangles (pointerMove v b ev s) j = rectangles s j"
  using assms
  by (simp add: pointerMove_def resizeRect_def Let_def split: option.splits)

lemma pointerMove_Move_locked:
  assumes "interaction s = Some (Move j start pid tgt)"
    and "pixelAspectLocked v (rectangles s i)"
  shows "pixelAspectLocked v (rectangles (pointerMove v' b ev s) i)"
  using assms by (simp add: pixelAspectLocked_def pointerMove_Move_sizes)

lemma pointerMove_Move_positioned:
  assumes "interaction s = Some (Move j start pid tgt)"
    and "positioned (rectangles s i)"
  shows "positioned (rectangles (pointerMove v b ev s) i)"
  using assms by (auto simp: pointerMove_def Let_def positioned_def)

lemma inv_lock_pointerMove:
  assumes "inv_lock v s"
  shows "inv_lock v (pointerMove v b ev s)"
proof (cases "interaction s")
  case None
  with assms show ?thesis by (simp add: pointerMove_idle)
next
  case (Some a)
  with assms have v: "videoWidth v \<noteq> 0" "videoHeight v \<noteq> 0"
    and all: "\<And>i. positioned (rectangles s i)" "\<And>i. pixelAspectLocked v (rectangles s i)"
    by (auto simp: inv_lock_def)
  show ?thesis
  proof (cases a)
    case (Move j start pid tgt)
    with Some have m: "interaction s = Some (Move j start pid tgt)" by simp
    show ?thesis
      using v all by (simp add: inv_lock_def pointerMove_Move_locked [OF m]
          pointerMove_Move_positioned [OF m])
  next
    case (Resize j h start pid tgt)
    with Some have r: "interaction s = Some (Resize j h start pid tgt)" by simp
    show ?thesis
    proof (cases "bounds_width b = 0 \<or> bounds_height b = 0")
      case True
      then show ?thesis using assms by (simp add: pointerMove_Resize_unchanged [OF r])
    next
      case False
      then have b: "bounds_width b \<noteq> 0" "bounds_height b \<noteq> 0" by simp_all
      have "positioned (rectangles (pointerMove v b ev s) i)
          \<and> pixelAspectLocked v (rectangles (pointerMove v b ev s) i)" for i
      proof (cases "i = j")
        case True
        then show ?thesis
          using pointerMove_Resize_locked [OF r v b] pointerMove_Resize_positioned [OF r v b]
          by simp
      next
        case False
        then show ?thesis using all by (simp add: pointerMove_Resize_other [OF r])
      qed
      then show ?thesis using v by (simp add: inv_lock_def)
    qed
  qed
qed

lemma inv_lock_pointerDown: "inv_lock v s \<Longrightarrow> inv_lock v (pointerDown ev i s)"
  by (cases "positioned (rectangles s i)")
     (auto simp: inv_lock_def pointerDown_rectangles pointerDown_unpositioned)

lemma inv_lock_pointerDownResize: "inv_lock v s \<Longrightarrow> inv_lock v (pointerDownResize v ev i h s)"
  by (cases "positioned (rectangles s i)")
     (auto simp: inv_lock_def pointerDownResize_rectangles pointerDownResize_unpositioned)

lemma inv_lock_update: "inv_lock v s \<Longrightarrow> inv_lock v (updateRectSizeFromVideo v s)"
  by (cases "videoWidth v = 0 \<or> videoHeight v = 0")
     (auto simp: updateRectSizeFromVideo_unknown inv_lock_def
        updateRectSizeFromVideo_locked updateRectSizeFromVideo_positioned)

lemma inv_lock_endDrag: "inv_lock v s \<Longrightarrow> inv_lock v (endDrag s)"
  unfolding inv_lock_def endDrag_def by auto

lemma inv_lock_step: "inv_lock v s \<Longrightarrow> inv_lock v (step v s e)"
  by (cases e)
     (simp_all add: inv_lock_update inv_lock_pointerDown inv_lock_pointerDownResize
        inv_lock_pointerMove inv_lock_endDrag split: option.splits)

lemma inv_lock_initial: "inv_lock v initial_state"
  by (simp add: inv_lock_def initial_state_def initial_rect1_def initial_rect2_def
      positioned_def split: rect_id.splits)

lemma inv_lock_foldl: "inv_lock v s \<Longrightarrow> inv_lock v (foldl (step v) s evs)"
  by (induction evs arbitrary: s) (simp_all add: inv_lock_step)

lemma inv_lock_run: "inv_lock v (run v evs)"
  unfolding run_def by (rule inv_lock_foldl [OF inv_lock_initial])

lemma run_positioned_locked:
  assumes "positioned (rectangles (run v evs) i)"
  shows "videoWidth v \<noteq> 0 \<and> videoHeight v \<noteq> 0 \<and> pixelAspectLocked v (rectangles (run v evs) i)"
  using inv_lock_run [of v evs] assms by (auto simp: inv_lock_def)

lemma video_1920_1080_sel:
  "videoWidth video_1920_1080 = 1920" "videoHeight video_1920_1080 = 1080"
  by (simp_all add: video_1920_1080_def)

lemma sized_1920_1080_minWidthRatio: "minWidthRatio sized_1920_1080 = 550 / 1920"
  by (simp add: sized_1920_1080_def updateRectSizeFromVideo_def video_1920_1080_sel Let_def
      TARGET_ASPECT_width_def)

lemma resizing_1920_1080_interaction:
  "interaction resizing_1920_1080 = Some (Resize RectSpeaker1 BottomRight start_1920_1080
     1 (HandleElement RectSpeaker1 BottomRight))"
  by (simp add: resizing_1920_1080_def pointerDownResize_def sized_1920_1080_rect1
      getVideoMetrics_def video_1920_1080_sel event_at_def start_1920_1080_def)

lemma resizing_1920_1080_rest:
  "rectangles resizing_1920_1080 = rectangles sized_1920_1080"
  "minWidthRatio resizing_1920_1080 = 550 / 1920"
  by (simp_all add: resizing_1920_1080_def pointerDownResize_def sized_1920_1080_rect1
      getVideoMetrics_def video_1920_1080_sel sized_1920_1080_minWidthRatio)

lemma resized_1920_1080_rect1:
  "rectangles resized_1920_1080 RectSpeaker1 =
     initial_rect1\<lparr> widthRatio := 550 / 1920, heightRatio := 500 / 1080,
                    left_opt := Some 0.05, top_opt := Some (2 / 27) \<rparr>"
proof -
  have v: "videoWidth video_1920_1080 \<noteq> 0" "videoHeight video_1920_1080 \<noteq> 0"
    by (simp_all add: video_1920_1080_sel)
  have b: "bounds_width overlay_960_540 \<noteq> 0" "bounds_height overlay_960_540 \<noteq> 0"
    by (simp_all add: overlay_960_540_sel)
  have p: "eventPx video_1920_1080 overlay_960_540 (event_at 480 270 1) = (960, 540)"
    by (simp add: eventPx_def video_1920_1080_sel overlay_960_540_sel event_at_def clamp_def)
  have lo: "minWidthPxOf (55 / 192) (metricsOf video_1920_1080) = 550"
    by (simp add: minWidthPxOf_def metricsOf_def video_1920_1080_sel)
  have w: "computeWidthPx (metricsOf video_1920_1080) 550 864 460 1100 = 550"
    by (simp add: computeWidthPx_def metricsOf_def video_1920_1080_sel Let_def clamp_def
        TARGET_ASPECT_RATIO_value)
  have "resizeCase (metricsOf video_1920_1080) 550 BottomRight start_1920_1080 (960, 540)
          (rectangles sized_1920_1080 RectSpeaker1)
        = applyValues (metricsOf video_1920_1080) 550 (rectangles sized_1920_1080 RectSpeaker1)
            96 80 550"
    by (simp add: resizeCase_def start_1920_1080_def Let_def metricsOf_sel video_1920_1080_sel
        TARGET_ASPECT_RATIO_value w)
  also have "\<dots> = initial_rect1\<lparr> widthRatio := 550 / 1920, heightRatio := 500 / 1080,
                    left_opt := Some 0.05, top_opt := Some (2 / 27) \<rparr>"
    by (simp add: applyValues_def Let_def metricsOf_def video_1920_1080_sel clamp_def
        TARGET_ASPECT_RATIO_value sized_1920_1080_rect1)
  finally show ?thesis
    unfolding resized_1920_1080_def
    by (simp add: pointerMove_Resize [OF resizing_1920_1080_interaction v b]
        resizing_1920_1080_rest p lo)
qed

subsection \<open>The quotient of the ratios\<close>

lemma pixelAspectLocked_quotient:
  assumes "pixelAspectLocked v r" and "videoWidth v \<noteq> 0" and "videoHeight v \<noteq> 0"
  shows "widthRatio r / heightRatio r
           = TARGET_ASPECT_RATIO * real (videoHeight v) / real (videoWidth v)"
proof -
  let ?W = "real (videoWidth v)" and ?H = "real (videoHeight v)"
  have W: "?W \<noteq> 0" and H: "?H \<noteq> 0" using assms(2,3) by simp_all
  have eq: "widthRatio r * ?W / (heightRatio r * ?H) = TARGET_ASPECT_RATIO"
    using assms(1) by (simp add: pixelAspectLocked_def)
  have "heightRatio r \<noteq> 0"
  proof
    assume "heightRatio r = 0"
    with eq have "TARGET_ASPECT_RATIO = 0" by simp
    then show False using TARGET_ASPECT_RATIO_pos by simp
  qed
  with eq W H show ?thesis by (simp add: field_simps)
qed

lemma quotient_is_target_iff_square:
  assumes "videoWidth v \<noteq> 0" and "videoHeight v \<noteq> 0"
  shows "TARGET_ASPECT_RATIO * real (videoHeight v) / real (videoWidth v) = TARGET_ASPECT_RATIO
           \<longleftrightarrow> videoWidth v = videoHeight v"
proof -
  have "TARGET_ASPECT_RATIO \<noteq> 0" using TARGET_ASPECT_RATIO_pos by simp
  then have "TARGET_ASPECT_RATIO * real (videoHeight v) / real (videoWidth v) = TARGET_ASPECT_RATIO
      \<longleftrightarrow> real (videoHeight v) = real (videoWidth v)"
    using assms by (simp add: field_simps)
  then show ?thesis by auto
qed

text \<open>
  For a video of 1920 by 1080 pixels the quotient of the ratios is \<open>99 / 160\<close> after the
  initial sizing and after a resize, far from \<open>11 / 10\<close>.
\<close>

theorem resize_ratio_quotient_counterexample:
  "widthRatio (rectangles resized_1920_1080 RectSpeaker1)
     / heightRatio (rectangles resized_1920_1080 RectSpeaker1) \<noteq> TARGET_ASPECT_RATIO
   \<and> 0.4 < \<bar>widthRatio (rectangles resized_1920_1080 RectSpeaker1)
               / heightRatio (rectangles resized_1920_1080 RectSpeaker1) - TARGET_ASPECT_RATIO\<bar>
   \<and> 0.4 < \<bar>widthRatio (rectangles sized_1920_1080 RectSpeaker1)
               / heightRatio (rectangles sized_1920_1080 RectSpeaker1) - TARGET_ASPECT_RATIO\<bar>"
  by (simp add: resized_1920_1080_rect1 sized_1920_1080_rect1 TARGET_ASPECT_RATIO_value)

text \<open>
  Claim C1, as the code has it. After every resize that completes, and in every state the
  page reaches once the rectangles are placed, \<open>widthRatio / heightRatio\<close> is
  \<open>TARGET_ASPECT_RATIO * videoHeight / videoWidth\<close>: the target ratio holds between the
  pixel sizes, and the quotient of the ratios is the target ratio only for a square video.
\<close>

theorem ratio_quotient_is_target_times_video_shape:
  "(interaction s = Some (Resize i h start pid tgt)
      \<and> videoWidth v \<noteq> 0 \<and> videoHeight v \<noteq> 0 \<and> bounds_width b \<noteq> 0 \<and> bounds_height b \<noteq> 0
      \<longrightarrow> widthRatio (rectangles (pointerMove v b ev s) i)
             / heightRatio (rectangles (pointerMove v b ev s) i)
           = TARGET_ASPECT_RATIO * real (videoHeight v) / real (videoWidth v))
   \<and> (positioned (rectangles (run v evs) i)
      \<longrightarrow> widthRatio (rectangles (run v evs) i) / heightRatio (rectangles (run v evs) i)
           = TARGET_ASPECT_RATIO * real (videoHeight v) / real (videoWidth v))
   \<and> (videoWidth v \<noteq> 0 \<and> videoHeight v \<noteq> 0
      \<longrightarrow> (TARGET_ASPECT_RATIO * real (videoHeight v) / real (videoWidth v) = TARGET_ASPECT_RATIO
             \<longleftrightarrow> videoWidth v = videoHeight v))"
proof (intro conjI impI)
  assume a: "interaction s = Some (Resize i h start pid tgt)
      \<and> videoWidth v \<noteq> 0 \<and> videoHeight v \<noteq> 0 \<and> bounds_width b \<noteq> 0 \<and> bounds_height b \<noteq> 0"
  then have "pixelAspectLocked v (rectangles (pointerMove v b ev s) i)"
    by (simp add: pointerMove_Resize_locked)
  with a show "widthRatio (rectangles (pointerMove v b ev s) i)
             / heightRatio (rectangles (pointerMove v b ev s) i)
           = TARGET_ASPECT_RATIO * real (videoHeight v) / real (videoWidth v)"
    by (simp add: pixelAspectLocked_quotient)
next
  assume "positioned (rectangles (run v evs) i)"
  then show "widthRatio (rectangles (run v evs) i) / heightRatio (rectangles (run v evs) i)
           = TARGET_ASPECT_RATIO * real (videoHeight v) / real (videoWidth v)"
    using run_positioned_locked [of v evs i] by (simp add: pixelAspectLocked_quotient)
next
  assume "videoWidth v \<noteq> 0 \<and> videoHeight v \<noteq> 0"
  then show "TARGET_ASPECT_RATIO * real (videoHeight v) / real (videoWidth v) = TARGET_ASPECT_RATIO
             \<longleftrightarrow> videoWidth v = videoHeight v"
    by (simp add: quotient_is_target_iff_square)
qed

lemma run_events_resize_1920_1080: "run video_1920_1080 events_resize_1920_1080 = resized_1920_1080"
  by (simp add: run_def events_resize_1920_1080_def resized_1920_1080_def resizing_1920_1080_def
      sized_1920_1080_def [symmetric] sized_1920_1080_rect1 getVideoMetrics_def video_1920_1080_sel)

theorem ratio_quotient_1920_1080:
  "interaction resizing_1920_1080 = Some (Resize RectSpeaker1 BottomRight start_1920_1080
     1 (HandleElement RectSpeaker1 BottomRight))
   \<and> videoWidth video_1920_1080 \<noteq> 0 \<and> videoHeight video_1920_1080 \<noteq> 0
   \<and> bounds_width overlay_960_540 \<noteq> 0 \<and> bounds_height overlay_960_540 \<noteq> 0
   \<and> positioned (rectangles (run video_1920_1080 events_resize_1920_1080) RectSpeaker1)
   \<and> widthRatio (rectangles (pointerMove video_1920_1080 overlay_960_540 (event_at 480 270 1)
         resizing_1920_1080) RectSpeaker1)
       / heightRatio (rectangles (pointerMove video_1920_1080 overlay_960_540 (event_at 480 270 1)
         resizing_1920_1080) RectSpeaker1) = TARGET_ASPECT_RATIO * 1080 / 1920
   \<and> widthRatio (rectangles (run video_1920_1080 events_resize_1920_1080) RectSpeaker1)
       / heightRatio (rectangles (run video_1920_1080 events_resize_1920_1080) RectSpeaker1)
       = TARGET_ASPECT_RATIO * 1080 / 1920
   \<and> TARGET_ASPECT_RATIO * 1080 / 1920 \<noteq> TARGET_ASPECT_RATIO"
proof -
  note i = resizing_1920_1080_interaction
  have v: "videoWidth video_1920_1080 \<noteq> 0 \<and> videoHeight video_1920_1080 \<noteq> 0"
    by (simp add: video_1920_1080_sel)
  have b: "bounds_width overlay_960_540 \<noteq> 0 \<and> bounds_height overlay_960_540 \<noteq> 0"
    by (simp add: overlay_960_540_sel)
  have p: "positioned (rectangles (run video_1920_1080 events_resize_1920_1080) RectSpeaker1)"
    by (simp add: run_events_resize_1920_1080 resized_1920_1080_rect1 positioned_def)
  note t = ratio_quotient_is_target_times_video_shape
    [of resizing_1920_1080 RectSpeaker1 BottomRight start_1920_1080 1
        "HandleElement RectSpeaker1 BottomRight" video_1920_1080 overlay_960_540
        "event_at 480 270 1" events_resize_1920_1080]
  from t i v b p show ?thesis
    by (simp add: video_1920_1080_sel)
qed

text \<open>
  Claim C10. The aspect lock of the code is in pixel space: after the initial sizing, after
  every resize and after every move, the width in pixels divided by the height in pixels,
  \<open>(widthRatio * videoWidth) / (heightRatio * videoHeight)\<close>, is exactly \<open>1100 / 1000\<close>,
  whatever the shape of the video; so it is in every state the page reaches once the
  rectangles are placed.
\<close>

theorem pixel_aspect_locked_after_every_operation:
  "(videoWidth v \<noteq> 0 \<and> videoHeight v \<noteq> 0
      \<longrightarrow> pixelAspectLocked v (rectangles (updateRectSizeFromVideo v s0) i))
   \<and> (interaction s1 = Some (Resize i h start pid tgt)
        \<and> videoWidth v \<noteq> 0 \<and> videoHeight v \<noteq> 0 \<and> bounds_width b \<noteq> 0 \<and> bounds_height b \<noteq> 0
      \<longrightarrow> pixelAspectLocked v (rectangles (pointerMove v b ev s1) i))
   \<and> (interaction s2 = Some (Move j mstart pid' tgt') \<and> pixelAspectLocked v (rectangles s2 i)
      \<longrightarrow> pixelAspectLocked v (rectangles (pointerMove v b ev s2) i))
   \<and> (positioned (rectangles (run v evs) i)
      \<longrightarrow> pixelAspectLocked v (rectangles (run v evs) i))
   \<and> (pixelAspectLocked v r \<longleftrightarrow>
         widthRatio r * real (videoWidth v) / (heightRatio r * real (videoHeight v)) = 1100 / 1000)"
proof (intro conjI impI)
  assume "videoWidth v \<noteq> 0 \<and> videoHeight v \<noteq> 0"
  then show "pixelAspectLocked v (rectangles (updateRectSizeFromVideo v s0) i)"
    by (simp add: updateRectSizeFromVideo_locked)
next
  assume "interaction s1 = Some (Resize i h start pid tgt)
        \<and> videoWidth v \<noteq> 0 \<and> videoHeight v \<noteq> 0 \<and> bounds_width b \<noteq> 0 \<and> bounds_height b \<noteq> 0"
  then show "pixelAspectLocked v (rectangles (pointerMove v b ev s1) i)"
    by (simp add: pointerMove_Resize_locked)
next
  assume "interaction s2 = Some (Move j mstart pid' tgt') \<and> pixelAspectLocked v (rectangles s2 i)"
  then show "pixelAspectLocked v (rectangles (pointerMove v b ev s2) i)"
    by (simp add: pointerMove_Move_locked)
next
  assume "positioned (rectangles (run v evs) i)"
  then show "pixelAspectLocked v (rectangles (run v evs) i)"
    by (simp add: run_positioned_locked)
next
  show "pixelAspectLocked v r \<longleftrightarrow>
         widthRatio r * real (videoWidth v) / (heightRatio r * real (videoHeight v)) = 1100 / 1000"
    by (simp add: pixelAspectLocked_def TARGET_ASPECT_RATIO_def TARGET_ASPECT_width_def
        TARGET_ASPECT_height_def)
qed

theorem pixel_aspect_locked_1920_1080:
  "videoWidth video_1920_1080 \<noteq> 0 \<and> videoHeight video_1920_1080 \<noteq> 0
   \<and> bounds_width overlay_960_540 \<noteq> 0 \<and> bounds_height overlay_960_540 \<noteq> 0
   \<and> interaction resizing_1920_1080 = Some (Resize RectSpeaker1 BottomRight start_1920_1080
        1 (HandleElement RectSpeaker1 BottomRight))
   \<and> interaction moving_1920_1080 = Some (Move RectSpeaker1
        \<lparr> start_clientX = 100, start_clientY = 100, start_left = 0.05, start_top = 2 / 27 \<rparr>
        1 (RectElement RectSpeaker1))
   \<and> positioned (rectangles (run video_1920_1080 events_resize_1920_1080) RectSpeaker1)
   \<and> pixelAspectLocked video_1920_1080 (rectangles moving_1920_1080 RectSpeaker1)
   \<and> pixelAspectLocked video_1920_1080
        (rectangles (updateRectSizeFromVideo video_1920_1080 initial_state) RectSpeaker1)
   \<and> pixelAspectLocked video_1920_1080
        (rectangles (pointerMove video_1920_1080 overlay_960_540 (event_at 480 270 1)
           resizing_1920_1080) RectSpeaker1)
   \<and> pixelAspectLocked video_1920_1080
        (rectangles (pointerMove video_1920_1080 overlay_960_540 (event_at 480 270 1)
           moving_1920_1080) RectSpeaker1)
   \<and> pixelAspectLocked video_1920_1080
        (rectangles (run video_1920_1080 events_resize_1920_1080) RectSpeaker1)
   \<and> widthRatio (rectangles resized_1920_1080 RectSpeaker1) * 1920
        / (heightRatio (rectangles resized_1920_1080 RectSpeaker1) * 1080) = 1100 / 1000"
proof -
  have v: "videoWidth video_1920_1080 \<noteq> 0 \<and> videoHeight video_1920_1080 \<noteq> 0"
    by (simp add: video_1920_1080_sel)
  have b: "bounds_width overlay_960_540 \<noteq> 0 \<and> bounds_height overlay_960_540 \<noteq> 0"
    by (simp add: overlay_960_540_sel)
  note r = resizing_1920_1080_interaction
  note m = moving_1920_1080_interaction
  have p: "positioned (rectangles (run video_1920_1080 events_resize_1920_1080) RectSpeaker1)"
    by (simp add: run_events_resize_1920_1080 resized_1920_1080_rect1 positioned_def)
  have l: "pixelAspectLocked video_1920_1080 (rectangles moving_1920_1080 RectSpeaker1)"
    by (simp add: pixelAspectLocked_def moving_1920_1080_rectangles sized_1920_1080_rect1
        video_1920_1080_sel TARGET_ASPECT_RATIO_value)
  note t = pixel_aspect_locked_after_every_operation
    [of video_1920_1080 initial_state RectSpeaker1 resizing_1920_1080 BottomRight
        start_1920_1080 1 "HandleElement RectSpeaker1 BottomRight" overlay_960_540
        "event_at 480 270 1" moving_1920_1080 RectSpeaker1
        "\<lparr> start_clientX = 100, start_clientY = 100, start_left = 0.05, start_top = 2 / 27 \<rparr>"
        1 "RectElement RectSpeaker1" events_resize_1920_1080
        "rectangles resized_1920_1080 RectSpeaker1"]
  have c1: "pixelAspectLocked video_1920_1080
        (rectangles (updateRectSizeFromVideo video_1920_1080 initial_state) RectSpeaker1)"
    using t v by blast
  have c2: "pixelAspectLocked video_1920_1080
        (rectangles (pointerMove video_1920_1080 overlay_960_540 (event_at 480 270 1)
           resizing_1920_1080) RectSpeaker1)"
    using t v b r by blast
  have c3: "pixelAspectLocked video_1920_1080
        (rectangles (pointerMove video_1920_1080 overlay_960_540 (event_at 480 270 1)
           moving_1920_1080) RectSpeaker1)"
    using t m l by blast
  have c4: "pixelAspectLocked video_1920_1080
        (rectangles (run video_1920_1080 events_resize_1920_1080) RectSpeaker1)"
    using t p by blast
  have c5: "widthRatio (rectangles resized_1920_1080 RectSpeaker1) * 1920
        / (heightRatio (rectangles resized_1920_1080 RectSpeaker1) * 1080) = 1100 / 1000"
    using t c4 by (simp add: run_events_resize_1920_1080 video_1920_1080_sel)
  from v b r m p l c1 c2 c3 c4 c5 show ?thesis by blast
qed

text \<open>
  Claim C2, as the code has it. A pointer-down is not ignored while an interaction is
  active: no handler looks at the current interaction. On the body of a placed rectangle
  it installs a new move of that rectangle, and on a handle of a placed rectangle, the
  video metrics being known, a new resize from that handle, whatever interaction was
  active before; the rectangles themselves are left as they are.
\<close>

theorem pointerDown_replaces_interaction:
  "(left_opt (rectangles s i) = Some l \<and> top_opt (rectangles s i) = Some t
      \<longrightarrow> interaction (pointerDown ev i s) = Some (Move i
             \<lparr> start_clientX = clientX ev, start_clientY = clientY ev,
               start_left = l, start_top = t \<rparr> (pointerId ev) (RectElement i)))
   \<and> (left_opt (rectangles s i) = Some l \<and> top_opt (rectangles s i) = Some t
        \<and> videoWidth v \<noteq> 0 \<and> videoHeight v \<noteq> 0
      \<longrightarrow> interaction (pointerDownResize v ev i h s) = Some (Resize i h
             \<lparr> start_leftRatio = l, start_topRatio = t,
               start_widthRatio = widthRatio (rectangles s i),
               start_heightRatio = heightRatio (rectangles s i),
               start_leftPx = l * real (videoWidth v), start_topPx = t * real (videoHeight v),
               start_widthPx = widthRatio (rectangles s i) * real (videoWidth v),
               start_heightPx = heightRatio (rectangles s i) * real (videoHeight v) \<rparr>
             (pointerId ev) (HandleElement i h)))
   \<and> rectangles (pointerDown ev i s) = rectangles s
   \<and> rectangles (pointerDownResize v ev i h s) = rectangles s"
  by (simp add: pointerDown_rectangles pointerDownResize_rectangles pointerDown_positioned)
     (simp add: pointerDownResize_def getVideoMetrics_def)

text \<open>
  While rectangle 1 is being moved, a pointer-down on rectangle 2 or on one of its handles
  replaces the interaction, and the next pointer-move no longer moves rectangle 1.
\<close>

theorem pointerDown_during_move_counterexample:
  "interaction moving_1920_1080 = Some (Move RectSpeaker1
        \<lparr> start_clientX = 100, start_clientY = 100, start_left = 0.05, start_top = 2 / 27 \<rparr>
        1 (RectElement RectSpeaker1))
   \<and> interaction (pointerDownResize video_1920_1080 (event_at 900 500 2) RectSpeaker2 BottomRight
        moving_1920_1080) \<noteq> interaction moving_1920_1080
   \<and> interaction (pointerDown (event_at 700 300 2) RectSpeaker2 moving_1920_1080)
        \<noteq> interaction moving_1920_1080
   \<and> rectangles (pointerMove video_1920_1080 overlay_960_540 (event_at 196 154 1)
        (pointerDown (event_at 700 300 2) RectSpeaker2 moving_1920_1080)) RectSpeaker1
      \<noteq> rectangles (pointerMove video_1920_1080 overlay_960_540 (event_at 196 154 1)
        moving_1920_1080) RectSpeaker1"
proof -
  note m = moving_1920_1080_interaction
  have r2: "left_opt (rectangles moving_1920_1080 RectSpeaker2) = Some (41 / 96)"
     "top_opt (rectangles moving_1920_1080 RectSpeaker2) = Some (2 / 27)"
    by (simp_all add: moving_1920_1080_rectangles sized_1920_1080_rect2)
  have a: "interaction (pointerDownResize video_1920_1080 (event_at 900 500 2) RectSpeaker2
        BottomRight moving_1920_1080) \<noteq> interaction moving_1920_1080"
    by (simp add: m pointerDownResize_def r2 getVideoMetrics_def video_1920_1080_sel)
  let ?s = "pointerDown (event_at 700 300 2) RectSpeaker2 moving_1920_1080"
  have i2: "interaction ?s = Some (Move RectSpeaker2
        \<lparr> start_clientX = 700, start_clientY = 300, start_left = 41 / 96, start_top = 2 / 27 \<rparr>
        2 (RectElement RectSpeaker2))"
    by (simp add: pointerDown_def r2 event_at_def)
  have b: "interaction ?s \<noteq> interaction moving_1920_1080"
    by (simp add: i2 m)
  have "rectangles (pointerMove video_1920_1080 overlay_960_540 (event_at 196 154 1) ?s)
          RectSpeaker1 = rectangles moving_1920_1080 RectSpeaker1"
    using pointerMove_Move_other [OF i2, of RectSpeaker1]
    by (simp add: pointerDown_rectangles)
  then have l1: "left_opt (rectangles (pointerMove video_1920_1080 overlay_960_540
          (event_at 196 154 1) ?s) RectSpeaker1) = Some 0.05"
    by (simp add: moving_1920_1080_rectangles sized_1920_1080_rect1)
  have l2: "left_opt (rectangles (pointerMove video_1920_1080 overlay_960_540
          (event_at 196 154 1) moving_1920_1080) RectSpeaker1) = Some 0.15"
    by (simp add: pointerMove_def m overlay_960_540_sel event_at_def Let_def clamp_def
        moving_1920_1080_rectangles sized_1920_1080_rect1)
  have c: "rectangles (pointerMove video_1920_1080 overlay_960_540 (event_at 196 154 1) ?s)
             RectSpeaker1
      \<noteq> rectangles (pointerMove video_1920_1080 overlay_960_540 (event_at 196 154 1)
        moving_1920_1080) RectSpeaker1"
  proof
    assume "rectangles (pointerMove video_1920_1080 overlay_960_540 (event_at 196 154 1) ?s)
             RectSpeaker1
      = rectangles (pointerMove video_1920_1080 overlay_960_540 (event_at 196 154 1)
        moving_1920_1080) RectSpeaker1"
    with l1 l2 show False by simp
  qed
  from m a b c show ?thesis by blast
qed

theorem pointerDown_replaces_interaction_witness:
  "left_opt (rectangles moving_1920_1080 RectSpeaker2) = Some (41 / 96)
   \<and> top_opt (rectangles moving_1920_1080 RectSpeaker2) = Some (2 / 27)
   \<and> videoWidth video_1920_1080 \<noteq> 0 \<and> videoHeight video_1920_1080 \<noteq> 0
   \<and> interaction moving_1920_1080 \<noteq> None
   \<and> interaction (pointerDown (event_at 700 300 2) RectSpeaker2 moving_1920_1080)
       = Some (Move RectSpeaker2
           \<lparr> start_clientX = 700, start_clientY = 300, start_left = 41 / 96, start_top = 2 / 27 \<rparr>
           2 (RectElement RectSpeaker2))
   \<and> interaction (pointerDownResize video_1920_1080 (event_at 900 500 2) RectSpeaker2 BottomRight
         moving_1920_1080)
       = Some (Resize RectSpeaker2 BottomRight
           \<lparr> start_leftRatio = 41 / 96, start_topRatio = 2 / 27,
             start_widthRatio = 1100 / 1920, start_heightRatio = 1000 / 1080,
             start_leftPx = 820, start_topPx = 80, start_widthPx = 1100, start_heightPx = 1000 \<rparr>
           2 (HandleElement RectSpeaker2 BottomRight))"
proof -
  have r2: "left_opt (rectangles moving_1920_1080 RectSpeaker2) = Some (41 / 96)
          \<and> top_opt (rectangles moving_1920_1080 RectSpeaker2) = Some (2 / 27)"
    by (simp add: moving_1920_1080_rectangles sized_1920_1080_rect2)
  have v: "videoWidth video_1920_1080 \<noteq> 0 \<and> videoHeight video_1920_1080 \<noteq> 0"
    by (simp add: video_1920_1080_sel)
  have a: "interaction moving_1920_1080 \<noteq> None"
    by (simp add: moving_1920_1080_interaction)
  have sz: "widthRatio (rectangles moving_1920_1080 RectSpeaker2) = 1100 / 1920"
    "heightRatio (rectangles moving_1920_1080 RectSpeaker2) = 1000 / 1080"
    by (simp_all add: moving_1920_1080_rectangles sized_1920_1080_rect2)
  note t1 = pointerDown_replaces_interaction
    [of moving_1920_1080 RectSpeaker2 "41 / 96" "2 / 27" "event_at 700 300 2"
        video_1920_1080 BottomRight]
  note t2 = pointerDown_replaces_interaction
    [of moving_1920_1080 RectSpeaker2 "41 / 96" "2 / 27" "event_at 900 500 2"
        video_1920_1080 BottomRight]
  have c1: "interaction (pointerDown (event_at 700 300 2) RectSpeaker2 moving_1920_1080)
       = Some (Move RectSpeaker2
           \<lparr> start_clientX = 700, start_clientY = 300, start_left = 41 / 96, start_top = 2 / 27 \<rparr>
           2 (RectElement RectSpeaker2))"
    using t1 r2 by (simp add: event_at_def)
  have c2: "interaction (pointerDownResize video_1920_1080 (event_at 900 500 2) RectSpeaker2
         BottomRight moving_1920_1080)
       = Some (Resize RectSpeaker2 BottomRight
           \<lparr> start_leftRatio = 41 / 96, start_topRatio = 2 / 27,
             start_widthRatio = 1100 / 1920, start_heightRatio = 1000 / 1080,
             start_leftPx = 820, start_topPx = 80, start_widthPx = 1100, start_heightPx = 1000 \<rparr>
           2 (HandleElement RectSpeaker2 BottomRight))"
    using t2 r2 v by (simp add: event_at_def sz video_1920_1080_sel)
  from r2 v a c1 c2 show ?thesis by blast
qed

lemma video_320_240_sel:
  "videoWidth video_320_240 = 320" "videoHeight video_320_240 = 240"
  by (simp_all add: video_320_240_def)

lemma sized_320_240_rect1:
  "rectangles sized_320_240 RectSpeaker1 =
     initial_rect1\<lparr> widthRatio := 1100 / 320, heightRatio := 1000 / 240,
                    left_opt := Some 0, top_opt := Some 0 \<rparr>"
  by (simp add: sized_320_240_def updateRectSizeFromVideo_def video_320_240_sel
      initial_state_def initial_rect1_def sizeRect_def clamp_def Let_def
      TARGET_ASPECT_width_def TARGET_ASPECT_height_def)

lemma sized_320_240_minWidthRatio: "minWidthRatio sized_320_240 = 55 / 32"
  by (simp add: sized_320_240_def updateRectSizeFromVideo_def video_320_240_sel Let_def
      TARGET_ASPECT_width_def)

lemma resizing_320_240_interaction:
  "interaction resizing_320_240 = Some (Resize RectSpeaker1 BottomRight start_320_240
     1 (HandleElement RectSpeaker1 BottomRight))"
  by (simp add: resizing_320_240_def pointerDownResize_def sized_320_240_rect1
      getVideoMetrics_def video_320_240_sel event_at_def start_320_240_def)

lemma resizing_320_240_rest:
  "rectangles resizing_320_240 = rectangles sized_320_240"
  "minWidthRatio resizing_320_240 = 55 / 32"
  by (simp_all add: resizing_320_240_def pointerDownResize_def sized_320_240_rect1
      getVideoMetrics_def video_320_240_sel sized_320_240_minWidthRatio)

lemma resized_320_240_rect1:
  "rectangles resized_320_240 RectSpeaker1 =
     initial_rect1\<lparr> widthRatio := 1, heightRatio := 40 / 33,
                    left_opt := Some 0, top_opt := Some 0 \<rparr>"
proof -
  have v: "videoWidth video_320_240 \<noteq> 0" "videoHeight video_320_240 \<noteq> 0"
    by (simp_all add: video_320_240_sel)
  have b: "bounds_width overlay_960_540 \<noteq> 0" "bounds_height overlay_960_540 \<noteq> 0"
    by (simp_all add: overlay_960_540_sel)
  have p: "eventPx video_320_240 overlay_960_540 (event_at 480 270 1) = (160, 120)"
    by (simp add: eventPx_def video_320_240_sel overlay_960_540_sel event_at_def clamp_def)
  have lo: "minWidthPxOf (55 / 32) (metricsOf video_320_240) = 320"
    by (simp add: minWidthPxOf_def metricsOf_def video_320_240_sel)
  have w: "computeWidthPx (metricsOf video_320_240) 320 160 120 264 = 320"
    by (simp add: computeWidthPx_def metricsOf_def video_320_240_sel Let_def clamp_def
        TARGET_ASPECT_RATIO_value)
  have "resizeCase (metricsOf video_320_240) 320 BottomRight start_320_240 (160, 120)
          (rectangles sized_320_240 RectSpeaker1)
        = applyValues (metricsOf video_320_240) 320 (rectangles sized_320_240 RectSpeaker1)
            0 0 320"
    by (simp add: resizeCase_def start_320_240_def Let_def metricsOf_sel video_320_240_sel
        TARGET_ASPECT_RATIO_value w)
  also have "\<dots> = initial_rect1\<lparr> widthRatio := 1, heightRatio := 40 / 33,
                    left_opt := Some 0, top_opt := Some 0 \<rparr>"
    by (simp add: applyValues_def Let_def metricsOf_def video_320_240_sel clamp_def
        TARGET_ASPECT_RATIO_value sized_320_240_rect1)
  finally show ?thesis
    unfolding resized_320_240_def
    by (simp add: pointerMove_Resize [OF resizing_320_240_interaction v b]
        resizing_320_240_rest p lo)
qed

subsection \<open>The width floor\<close>

lemma updateRectSizeFromVideo_minWidthRatio:
  assumes "videoWidth v \<noteq> 0" and "videoHeight v \<noteq> 0"
  shows "minWidthRatio (updateRectSizeFromVideo v s)
           = min (max (TARGET_ASPECT_width / real (videoWidth v) * 0.5) 0.03)
                 (TARGET_ASPECT_width / real (videoWidth v))"
  using assms by (simp add: updateRectSizeFromVideo_def Let_def TARGET_ASPECT_width_def)

lemma updateRectSizeFromVideo_minWidthRatio_le_1:
  assumes "videoWidth v \<noteq> 0" and "videoHeight v \<noteq> 0"
  shows "minWidthRatio (updateRectSizeFromVideo v s) \<le> 1 \<longleftrightarrow> 550 \<le> videoWidth v"
proof -
  let ?W = "real (videoWidth v)"
  have W: "0 < ?W" using assms(1) by simp
  have a: "1100 / ?W * 0.5 \<le> 1 \<longleftrightarrow> 550 \<le> ?W" using W by (simp add: field_simps)
  have b: "1100 / ?W \<le> 1 \<longleftrightarrow> 1100 \<le> ?W" using W by (simp add: field_simps)
  have "min (max (1100 / ?W * 0.5) 0.03) (1100 / ?W) \<le> 1 \<longleftrightarrow> 550 \<le> ?W"
    using a b by (auto simp: min_le_iff_disj)
  moreover have "550 \<le> ?W \<longleftrightarrow> 550 \<le> videoWidth v" by linarith
  ultimately show ?thesis
    by (simp add: updateRectSizeFromVideo_minWidthRatio [OF assms] TARGET_ASPECT_width_def)
qed

lemma pointerMove_Resize_widthPx_lower:
  assumes "interaction s = Some (Resize i h start pid tgt)"
    and "videoWidth v \<noteq> 0" and "videoHeight v \<noteq> 0"
    and "bounds_width b \<noteq> 0" and "bounds_height b \<noteq> 0"
  shows "minWidthPxOf (minWidthRatio s) (metricsOf v)
           \<le> widthRatio (rectangles (pointerMove v b ev s) i) * real (videoWidth v)"
proof -
  have W: "0 < fst (metricsOf v)" using assms(2) by (rule metricsOf_pos)
  let ?lo = "minWidthPxOf (minWidthRatio s) (metricsOf v)"
  obtain w l t where w: "?lo \<le> w" "w \<le> fst (metricsOf v)"
    and eq: "resizeCase (metricsOf v) ?lo h start (eventPx v b ev) (rectangles s i)
               = applyValues (metricsOf v) ?lo (rectangles s i) l t w"
    using resizeCase_bounded [OF W] by blast
  have "widthRatio (rectangles (pointerMove v b ev s) i) * fst (metricsOf v) = w"
    using W w by (simp add: pointerMove_Resize [OF assms] eq applyValues_fields clamp_id)
  with w show ?thesis by (simp add: metricsOf_sel)
qed

text \<open>
  Claim C6, as the code has it. After every resize the width in pixels is at least
  \<open>max (min minWidthRatio 1) 0.02 * videoWidth\<close>: the floor is capped at the width of the
  frame. It is at least \<open>minWidthRatio * videoWidth\<close> whenever \<open>minWidthRatio\<close> is at most 1.
  The \<open>minWidthRatio\<close> computed at the last metrics change is
  \<open>min (max (cropWidth * 0.5) 0.03) cropWidth\<close> with \<open>cropWidth = 1100 / videoWidth\<close>, which is
  the clamp of \<open>cropWidth * 0.5\<close> to \<open>[0.03, cropWidth]\<close> when \<open>cropWidth\<close> is at least 0.03,
  and it is at most 1 exactly for videos at least 550 pixels wide.
\<close>

theorem resize_width_floor:
  "(interaction s = Some (Resize i h start pid tgt)
      \<and> videoWidth v \<noteq> 0 \<and> videoHeight v \<noteq> 0 \<and> bounds_width b \<noteq> 0 \<and> bounds_height b \<noteq> 0
      \<longrightarrow> max (min (minWidthRatio s) 1) 0.02 * real (videoWidth v)
             \<le> widthRatio (rectangles (pointerMove v b ev s) i) * real (videoWidth v)
          \<and> (minWidthRatio s \<le> 1 \<longrightarrow>
               minWidthRatio s * real (videoWidth v)
                 \<le> widthRatio (rectangles (pointerMove v b ev s) i) * real (videoWidth v)))
   \<and> (videoWidth v \<noteq> 0 \<and> videoHeight v \<noteq> 0
      \<longrightarrow> minWidthRatio (updateRectSizeFromVideo v s0)
             = min (max (TARGET_ASPECT_width / real (videoWidth v) * 0.5) 0.03)
                   (TARGET_ASPECT_width / real (videoWidth v))
          \<and> (0.03 \<le> TARGET_ASPECT_width / real (videoWidth v) \<longrightarrow>
               minWidthRatio (updateRectSizeFromVideo v s0)
                 = clamp (TARGET_ASPECT_width / real (videoWidth v) * 0.5) 0.03
                     (TARGET_ASPECT_width / real (videoWidth v)))
          \<and> (minWidthRatio (updateRectSizeFromVideo v s0) \<le> 1 \<longleftrightarrow> 550 \<le> videoWidth v))"
proof (intro conjI impI)
  assume a: "interaction s = Some (Resize i h start pid tgt)
      \<and> videoWidth v \<noteq> 0 \<and> videoHeight v \<noteq> 0 \<and> bounds_width b \<noteq> 0 \<and> bounds_height b \<noteq> 0"
  then have lower: "minWidthPxOf (minWidthRatio s) (metricsOf v)
           \<le> widthRatio (rectangles (pointerMove v b ev s) i) * real (videoWidth v)"
    by (simp add: pointerMove_Resize_widthPx_lower)
  then show floor: "max (min (minWidthRatio s) 1) 0.02 * real (videoWidth v)
             \<le> widthRatio (rectangles (pointerMove v b ev s) i) * real (videoWidth v)"
    by (simp add: minWidthPxOf_def metricsOf_sel)
  assume le1: "minWidthRatio s \<le> 1"
  have "minWidthRatio s * real (videoWidth v)
          \<le> max (min (minWidthRatio s) 1) 0.02 * real (videoWidth v)"
    using le1 by (intro mult_right_mono) simp_all
  with floor show "minWidthRatio s * real (videoWidth v)
                 \<le> widthRatio (rectangles (pointerMove v b ev s) i) * real (videoWidth v)"
    by simp
next
  assume v: "videoWidth v \<noteq> 0 \<and> videoHeight v \<noteq> 0"
  then show eq: "minWidthRatio (updateRectSizeFromVideo v s0)
             = min (max (TARGET_ASPECT_width / real (videoWidth v) * 0.5) 0.03)
                   (TARGET_ASPECT_width / real (videoWidth v))"
    by (simp add: updateRectSizeFromVideo_minWidthRatio)
  from v show "minWidthRatio (updateRectSizeFromVideo v s0) \<le> 1 \<longleftrightarrow> 550 \<le> videoWidth v"
    by (simp add: updateRectSizeFromVideo_minWidthRatio_le_1)
  assume "0.03 \<le> TARGET_ASPECT_width / real (videoWidth v)"
  then show "minWidthRatio (updateRectSizeFromVideo v s0)
                 = clamp (TARGET_ASPECT_width / real (videoWidth v) * 0.5) 0.03
                     (TARGET_ASPECT_width / real (videoWidth v))"
    unfolding eq by (simp add: clamp_def)
qed

text \<open>
  For a video of 320 by 240 pixels \<open>minWidthRatio\<close> is \<open>55 / 32\<close>, so
  \<open>minWidthRatio * videoWidth\<close> is 550 pixels, and a resize leaves the rectangle 320
  pixels wide.
\<close>

theorem resize_width_floor_counterexample:
  "\<not> (minWidthRatio resizing_320_240 * real (videoWidth video_320_240)
        \<le> widthRatio (rectangles resized_320_240 RectSpeaker1) * real (videoWidth video_320_240))
   \<and> minWidthRatio resizing_320_240
       = clamp (TARGET_ASPECT_width / real (videoWidth video_320_240) * 0.5) 0.03
           (TARGET_ASPECT_width / real (videoWidth video_320_240))
   \<and> minWidthRatio resizing_320_240 * real (videoWidth video_320_240) = 550
   \<and> widthRatio (rectangles resized_320_240 RectSpeaker1) * real (videoWidth video_320_240) = 320"
  by (simp add: resizing_320_240_rest resized_320_240_rect1 video_320_240_sel clamp_def
      TARGET_ASPECT_width_def)

subsection \<open>Resizing a rectangle that lies within the frame\<close>

lemma applyValues_safe:
  assumes W: "0 < fst m" and H: "0 < snd m"
    and w: "lo \<le> w" "w \<le> fst m"
    and l: "0 \<le> l" "l \<le> fst m - w"
    and t: "0 \<le> t" "t \<le> snd m - w / TARGET_ASPECT_RATIO"
  shows "applyValues m lo r l t w =
     r\<lparr> widthRatio := w / fst m, heightRatio := w / TARGET_ASPECT_RATIO / snd m,
        left_opt := Some (l / fst m), top_opt := Some (t / snd m) \<rparr>"
proof -
  have bw: "clamp w lo (fst m) = w" using w by (rule clamp_id)
  have ml: "max (fst m - w) 0 = fst m - w" using w by simp
  have mt: "max (snd m - w / TARGET_ASPECT_RATIO) 0 = snd m - w / TARGET_ASPECT_RATIO"
    using t by simp
  have sl: "clamp l 0 (fst m - w) = l" using l by (rule clamp_id)
  have st: "clamp t 0 (snd m - w / TARGET_ASPECT_RATIO) = t" using t by (rule clamp_id)
  show ?thesis
    unfolding applyValues_def Let_def bw ml mt sl st ..
qed

lemma goodStart_edgeBound:
  assumes "goodStart m lo start"
  shows "lo \<le> spec_edgeBoundPx m h (spec_anchorPx h start)"
  using assms
  by (cases h)
     (simp_all add: goodStart_def spec_edgeBoundPx_def spec_anchorPx_def
        TARGET_ASPECT_RATIO_value)

lemma goodStart_newCorner:
  assumes g: "goodStart m lo start"
    and n: "lo \<le> n" "n \<le> spec_edgeBoundPx m h (spec_anchorPx h start)"
  shows "0 \<le> fst (spec_newCornerPx h (spec_anchorPx h start) n)
       \<and> fst (spec_newCornerPx h (spec_anchorPx h start) n) \<le> fst m - n
       \<and> 0 \<le> snd (spec_newCornerPx h (spec_anchorPx h start) n)
       \<and> snd (spec_newCornerPx h (spec_anchorPx h start) n)
            \<le> snd m - n / TARGET_ASPECT_RATIO"
  using assms
  by (cases h)
     (simp_all add: goodStart_def spec_edgeBoundPx_def spec_anchorPx_def spec_newCornerPx_def
        TARGET_ASPECT_RATIO_value)

lemma goodStart_resizeCase:
  assumes W: "0 < fst m" and H: "0 < snd m"
    and g: "goodStart m (minWidthPxOf mwr m) start"
  shows "\<exists>n l t.
           resizeCase m (minWidthPxOf mwr m) h start p r =
             r\<lparr> widthRatio := n / fst m, heightRatio := n / TARGET_ASPECT_RATIO / snd m,
                left_opt := Some (l / fst m), top_opt := Some (t / snd m) \<rparr>
         \<and> (l, t) = spec_newCornerPx h (spec_anchorPx h start) n
         \<and> minWidthPxOf mwr m \<le> n \<and> n \<le> fst m
         \<and> 0 \<le> l \<and> l + n \<le> fst m \<and> 0 \<le> t \<and> t + n / TARGET_ASPECT_RATIO \<le> snd m"
proof -
  let ?lo = "minWidthPxOf mwr m"
  let ?a = "spec_anchorPx h start"
  let ?d = "spec_distancePx h ?a p"
  let ?n = "computeWidthPx m ?lo (fst ?d) (snd ?d) (spec_edgeBoundPx m h ?a)"
  let ?c = "spec_newCornerPx h ?a ?n"
  have loW: "?lo \<le> fst m" by (rule minWidthPxOf_le [OF W])
  have lob: "?lo \<le> spec_edgeBoundPx m h ?a" by (rule goodStart_edgeBound [OF g])
  have n1: "?lo \<le> ?n" by (rule computeWidthPx_lower)
  have n2: "?n \<le> fst m" by (rule computeWidthPx_le_width [OF loW])
  have "?n \<le> max (min (spec_edgeBoundPx m h ?a) (fst m)) ?lo"
    by (rule computeWidthPx_upper)
  with lob loW have n3: "?n \<le> spec_edgeBoundPx m h ?a" by simp
  note c = goodStart_newCorner [OF g n1 n3]
  have "resizeCase m ?lo h start p r = applyValues m ?lo r (fst ?c) (snd ?c) ?n"
    by (simp add: resizeCase_applyValues Let_def)
  also have "\<dots> = r\<lparr> widthRatio := ?n / fst m, heightRatio := ?n / TARGET_ASPECT_RATIO / snd m,
                left_opt := Some (fst ?c / fst m), top_opt := Some (snd ?c / snd m) \<rparr>"
    using c by (intro applyValues_safe [OF W H n1 n2]) simp_all
  finally have eq: "resizeCase m ?lo h start p r =
      r\<lparr> widthRatio := ?n / fst m, heightRatio := ?n / TARGET_ASPECT_RATIO / snd m,
         left_opt := Some (fst ?c / fst m), top_opt := Some (snd ?c / snd m) \<rparr>" .
  have "(fst ?c, snd ?c) = spec_newCornerPx h ?a ?n" by simp
  moreover have "fst ?c + ?n \<le> fst m" and "snd ?c + ?n / TARGET_ASPECT_RATIO \<le> snd m"
    using c by linarith+
  ultimately show ?thesis using eq n1 n2 c by blast
qed

lemma ratio_sum_le_1: "0 < c \<Longrightarrow> x + y \<le> c \<Longrightarrow> x / c + y / c \<le> (1::real)"
  by (simp add: add_divide_distrib [symmetric])

lemma ratio_sum_times: "c \<noteq> 0 \<Longrightarrow> (x / c + y / c) * c = (x + y :: real)"
  by (simp add: field_simps)

lemma spec_cornerPx_placed:
  assumes "left_opt r = Some l" and "top_opt r = Some t"
  shows "spec_cornerPx m h r =
     Some (case h of
        TopLeft \<Rightarrow> ((l + widthRatio r) * fst m, (t + heightRatio r) * snd m)
      | TopRight \<Rightarrow> (l * fst m, (t + heightRatio r) * snd m)
      | BottomLeft \<Rightarrow> ((l + widthRatio r) * fst m, t * snd m)
      | BottomRight \<Rightarrow> (l * fst m, t * snd m))"
  using assms by (simp add: spec_cornerPx_def)

lemma placed_cornerPx:
  assumes W: "0 < fst m" and H: "0 < snd m"
    and c: "(l, t) = spec_newCornerPx h a n"
  shows "spec_cornerPx m h
           (r\<lparr> widthRatio := n / fst m, heightRatio := n / TARGET_ASPECT_RATIO / snd m,
               left_opt := Some (l / fst m), top_opt := Some (t / snd m) \<rparr>) = Some a"
proof -
  let ?r = "r\<lparr> widthRatio := n / fst m, heightRatio := n / TARGET_ASPECT_RATIO / snd m,
               left_opt := Some (l / fst m), top_opt := Some (t / snd m) \<rparr>"
  have W': "fst m \<noteq> 0" and H': "snd m \<noteq> 0" using W H by simp_all
  have x: "(l / fst m + n / fst m) * fst m = l + n" by (rule ratio_sum_times [OF W'])
  have x0: "l / fst m * fst m = l" using W' by simp
  have y: "(t / snd m + n / TARGET_ASPECT_RATIO / snd m) * snd m = t + n / TARGET_ASPECT_RATIO"
    by (rule ratio_sum_times [OF H'])
  have y0: "t / snd m * snd m = t" using H' by simp
  have f: "left_opt ?r = Some (l / fst m)" "top_opt ?r = Some (t / snd m)"
    "widthRatio ?r = n / fst m" "heightRatio ?r = n / TARGET_ASPECT_RATIO / snd m"
    by simp_all
  have "spec_cornerPx m h ?r =
          Some (case h of
             TopLeft \<Rightarrow> ((l / fst m + n / fst m) * fst m,
                         (t / snd m + n / TARGET_ASPECT_RATIO / snd m) * snd m)
           | TopRight \<Rightarrow> (l / fst m * fst m, (t / snd m + n / TARGET_ASPECT_RATIO / snd m) * snd m)
           | BottomLeft \<Rightarrow> ((l / fst m + n / fst m) * fst m, t / snd m * snd m)
           | BottomRight \<Rightarrow> (l / fst m * fst m, t / snd m * snd m))"
    unfolding spec_cornerPx_placed [OF f(1,2)] f(3,4) ..
  also have "\<dots> = Some (case h of
             TopLeft \<Rightarrow> (l + n, t + n / TARGET_ASPECT_RATIO)
           | TopRight \<Rightarrow> (l, t + n / TARGET_ASPECT_RATIO)
           | BottomLeft \<Rightarrow> (l + n, t)
           | BottomRight \<Rightarrow> (l, t))"
    unfolding x x0 y y0 ..
  also have "\<dots> = Some a"
    using c by (cases h) (simp_all add: spec_newCornerPx_def prod_eq_iff)
  finally show ?thesis .
qed

lemma placed_goodRect:
  assumes v: "videoWidth v \<noteq> 0" "videoHeight v \<noteq> 0"
    and n: "minWidthPxOf mwr (metricsOf v) \<le> n"
    and l: "0 \<le> l" "l + n \<le> fst (metricsOf v)"
    and t: "0 \<le> t" "t + n / TARGET_ASPECT_RATIO \<le> snd (metricsOf v)"
  shows "goodRect v mwr
           (r\<lparr> widthRatio := n / fst (metricsOf v),
               heightRatio := n / TARGET_ASPECT_RATIO / snd (metricsOf v),
               left_opt := Some (l / fst (metricsOf v)),
               top_opt := Some (t / snd (metricsOf v)) \<rparr>)"
proof -
  let ?W = "fst (metricsOf v)" and ?H = "snd (metricsOf v)"
  have W: "0 < ?W" and H: "0 < ?H" using v by (simp_all add: metricsOf_pos)
  have n0: "0 < n" using n minWidthPxOf_pos [OF W, of mwr] by simp
  have R: "0 < TARGET_ASPECT_RATIO" by (rule TARGET_ASPECT_RATIO_pos)
  have a: "l / ?W + n / ?W \<le> 1" by (rule ratio_sum_le_1 [OF W l(2)])
  have b: "t / ?H + n / TARGET_ASPECT_RATIO / ?H \<le> 1" by (rule ratio_sum_le_1 [OF H t(2)])
  have frame: "withinFrame (r\<lparr> widthRatio := n / ?W, heightRatio := n / TARGET_ASPECT_RATIO / ?H,
               left_opt := Some (l / ?W), top_opt := Some (t / ?H) \<rparr>)"
    using a b l(1) t(1) W H by (simp add: withinFrame_def)
  have lock: "pixelAspectLocked v (r\<lparr> widthRatio := n / ?W,
               heightRatio := n / TARGET_ASPECT_RATIO / ?H,
               left_opt := Some (l / ?W), top_opt := Some (t / ?H) \<rparr>)"
    using W H n0 R by (simp add: pixelAspectLocked_def metricsOf_sel)
  have width: "minWidthPxOf mwr (metricsOf v) \<le> n / ?W * real (videoWidth v)"
    using n W by (simp add: metricsOf_sel)
  from frame lock width show ?thesis by (simp add: goodRect_def)
qed

lemma pointerMove_Resize_good:
  assumes r: "interaction s = Some (Resize i h start pid tgt)"
    and v: "videoWidth v \<noteq> 0" "videoHeight v \<noteq> 0"
    and b: "bounds_width b \<noteq> 0" "bounds_height b \<noteq> 0"
    and g: "goodStart (metricsOf v) (minWidthPxOf (minWidthRatio s) (metricsOf v)) start"
  shows "goodRect v (minWidthRatio s) (rectangles (pointerMove v b ev s) i)
       \<and> spec_cornerPx (metricsOf v) h (rectangles (pointerMove v b ev s) i)
           = Some (spec_anchorPx h start)"
proof -
  have W: "0 < fst (metricsOf v)" and H: "0 < snd (metricsOf v)"
    using v by (simp_all add: metricsOf_pos)
  obtain n l t where
    eq: "resizeCase (metricsOf v) (minWidthPxOf (minWidthRatio s) (metricsOf v)) h start
           (eventPx v b ev) (rectangles s i) =
         (rectangles s i)\<lparr> widthRatio := n / fst (metricsOf v),
            heightRatio := n / TARGET_ASPECT_RATIO / snd (metricsOf v),
            left_opt := Some (l / fst (metricsOf v)), top_opt := Some (t / snd (metricsOf v)) \<rparr>"
    and c: "(l, t) = spec_newCornerPx h (spec_anchorPx h start) n"
    and n: "minWidthPxOf (minWidthRatio s) (metricsOf v) \<le> n"
    and lt: "0 \<le> l" "l + n \<le> fst (metricsOf v)" "0 \<le> t"
        "t + n / TARGET_ASPECT_RATIO \<le> snd (metricsOf v)"
    using goodStart_resizeCase [OF W H g, of h "eventPx v b ev" "rectangles s i"] by blast
  have res: "rectangles (pointerMove v b ev s) i =
         (rectangles s i)\<lparr> widthRatio := n / fst (metricsOf v),
            heightRatio := n / TARGET_ASPECT_RATIO / snd (metricsOf v),
            left_opt := Some (l / fst (metricsOf v)), top_opt := Some (t / snd (metricsOf v)) \<rparr>"
    by (simp add: pointerMove_Resize [OF r v b] eq)
  show ?thesis
    unfolding res
    using placed_goodRect [OF v n lt(1,2,3,4)] placed_cornerPx [OF W H c] by simp
qed

lemma pointerDownResize_goodStart:
  assumes v: "videoWidth v \<noteq> 0" "videoHeight v \<noteq> 0"
    and g: "goodRect v mwr (rectangles s i)"
  shows "\<exists>start. interaction (pointerDownResize v ev i h s)
                   = Some (Resize i h start (pointerId ev) (HandleElement i h))
               \<and> goodStart (metricsOf v) (minWidthPxOf mwr (metricsOf v)) start
               \<and> spec_cornerPx (metricsOf v) h (rectangles s i) = Some (spec_anchorPx h start)"
proof -
  let ?r = "rectangles s i"
  let ?W = "real (videoWidth v)" and ?H = "real (videoHeight v)"
  have W: "0 < ?W" and H: "0 < ?H" using v by simp_all
  from g obtain l t where lt: "left_opt ?r = Some l" "top_opt ?r = Some t"
    and f: "0 \<le> l" "0 \<le> t" "l + widthRatio ?r \<le> 1" "t + heightRatio ?r \<le> 1"
    by (auto simp: goodRect_def withinFrame_def split: option.splits)
  from g have lock: "widthRatio ?r * ?W / (heightRatio ?r * ?H) = TARGET_ASPECT_RATIO"
    and width: "minWidthPxOf mwr (metricsOf v) \<le> widthRatio ?r * ?W"
    by (simp_all add: goodRect_def pixelAspectLocked_def)
  let ?st = "\<lparr> start_leftRatio = l, start_topRatio = t,
       start_widthRatio = widthRatio ?r, start_heightRatio = heightRatio ?r,
       start_leftPx = l * ?W, start_topPx = t * ?H,
       start_widthPx = widthRatio ?r * ?W, start_heightPx = heightRatio ?r * ?H \<rparr>"
  have i: "interaction (pointerDownResize v ev i h s)
             = Some (Resize i h ?st (pointerId ev) (HandleElement i h))"
    using v lt by (simp add: pointerDownResize_def getVideoMetrics_def)
  have hH: "heightRatio ?r * ?H \<noteq> 0"
  proof
    assume "heightRatio ?r * ?H = 0"
    with lock have "TARGET_ASPECT_RATIO = 0" by simp
    then show False using TARGET_ASPECT_RATIO_pos by simp
  qed
  with lock have asp: "widthRatio ?r * ?W = heightRatio ?r * ?H * TARGET_ASPECT_RATIO"
    by (simp add: field_simps)
  have x: "l * ?W + widthRatio ?r * ?W \<le> ?W"
    using mult_right_mono [OF f(3), of ?W] W by (simp add: distrib_right)
  have y: "t * ?H + heightRatio ?r * ?H \<le> ?H"
    using mult_right_mono [OF f(4), of ?H] H by (simp add: distrib_right)
  have gs: "goodStart (metricsOf v) (minWidthPxOf mwr (metricsOf v)) ?st"
    using f(1,2) W H x y asp width by (simp add: goodStart_def metricsOf_sel)
  have co: "spec_cornerPx (metricsOf v) h ?r = Some (spec_anchorPx h ?st)"
    by (cases h) (simp_all add: spec_cornerPx_def spec_anchorPx_def lt metricsOf_sel distrib_right)
  from i gs co show ?thesis by blast
qed

lemma pointerMove_minWidthRatio: "minWidthRatio (pointerMove v b ev s) = minWidthRatio s"
  by (simp add: pointerMove_def resizeRect_def Let_def split: option.splits interaction.splits)

lemma pointerMoves_Nil: "pointerMoves v [] s = s"
  by (simp add: pointerMoves_def)

lemma pointerMoves_Cons: "pointerMoves v ((b, ev) # moves) s = pointerMoves v moves (pointerMove v b ev s)"
  by (simp add: pointerMoves_def)

lemma pointerMoves_anchor:
  assumes v: "videoWidth v \<noteq> 0" "videoHeight v \<noteq> 0"
    and r: "interaction s = Some (Resize i h start pid tgt)"
    and g: "goodStart (metricsOf v) (minWidthPxOf (minWidthRatio s) (metricsOf v)) start"
    and c: "spec_cornerPx (metricsOf v) h (rectangles s i) = Some (spec_anchorPx h start)"
  shows "spec_cornerPx (metricsOf v) h (rectangles (pointerMoves v moves s) i)
           = Some (spec_anchorPx h start)"
  using r g c
proof (induction moves arbitrary: s)
  case Nil
  then show ?case by (simp add: pointerMoves_Nil)
next
  case (Cons a moves)
  obtain b ev where a: "a = (b, ev)" by (cases a)
  let ?s = "pointerMove v b ev s"
  have r': "interaction ?s = Some (Resize i h start pid tgt)"
    using Cons.prems(1) by (simp add: pointerMove_interaction)
  have g': "goodStart (metricsOf v) (minWidthPxOf (minWidthRatio ?s) (metricsOf v)) start"
    using Cons.prems(2) by (simp add: pointerMove_minWidthRatio)
  have c': "spec_cornerPx (metricsOf v) h (rectangles ?s i) = Some (spec_anchorPx h start)"
  proof (cases "bounds_width b = 0 \<or> bounds_height b = 0")
    case True
    then show ?thesis
      using Cons.prems(3) by (simp add: pointerMove_Resize_unchanged [OF Cons.prems(1)])
  next
    case False
    then have b: "bounds_width b \<noteq> 0" "bounds_height b \<noteq> 0" by simp_all
    show ?thesis
      using pointerMove_Resize_good [OF Cons.prems(1) v b Cons.prems(2)] by simp
  qed
  show ?case
    unfolding a pointerMoves_Cons by (rule Cons.IH [OF r' g' c'])
qed

lemma goodRect_positioned: "goodRect v mwr r \<Longrightarrow> positioned r"
  by (auto simp: goodRect_def withinFrame_def positioned_def split: option.splits)

lemma goodRect_cornerPx: "goodRect v mwr r \<Longrightarrow> spec_cornerPx m h r \<noteq> None"
  by (auto simp: goodRect_def withinFrame_def spec_cornerPx_def split: option.splits)

lemma pointerDownResize_minWidthRatio:
  "minWidthRatio (pointerDownResize v ev i h s) = minWidthRatio s"
  by (simp add: pointerDownResize_def split: option.splits prod.splits)

lemma resize_anchor_from_goodRect:
  assumes v: "videoWidth v \<noteq> 0" "videoHeight v \<noteq> 0"
    and g: "goodRect v (minWidthRatio s) (rectangles s i)"
  shows "spec_cornerPx (metricsOf v) h
           (rectangles (pointerMoves v moves (pointerDownResize v ev i h s)) i)
         = spec_cornerPx (metricsOf v) h (rectangles s i)"
proof -
  let ?s = "pointerDownResize v ev i h s"
  obtain start where r: "interaction ?s = Some (Resize i h start (pointerId ev) (HandleElement i h))"
    and gs: "goodStart (metricsOf v) (minWidthPxOf (minWidthRatio s) (metricsOf v)) start"
    and c: "spec_cornerPx (metricsOf v) h (rectangles s i) = Some (spec_anchorPx h start)"
    using pointerDownResize_goodStart [OF v g] by blast
  have gs': "goodStart (metricsOf v) (minWidthPxOf (minWidthRatio ?s) (metricsOf v)) start"
    using gs by (simp add: pointerDownResize_minWidthRatio)
  have c': "spec_cornerPx (metricsOf v) h (rectangles ?s i) = Some (spec_anchorPx h start)"
    using c by (simp add: pointerDownResize_rectangles)
  show ?thesis
    using pointerMoves_anchor [OF v r gs' c'] c by simp
qed

subsection \<open>Videos in which the target box fits\<close>

lemma goodVideo_known: "goodVideo v \<Longrightarrow> videoWidth v \<noteq> 0 \<and> videoHeight v \<noteq> 0"
  by (auto simp: goodVideo_def)

lemma goodVideo_floor:
  assumes "goodVideo v"
  shows "minWidthPxOf (cropFloor v) (metricsOf v) \<le> TARGET_ASPECT_width"
proof -
  let ?W = "real (videoWidth v)"
  have W: "1100 \<le> ?W" "?W \<le> 55000" using assms by (simp_all add: goodVideo_def)
  then have W0: "0 < ?W" by simp
  have cw: "1100 / ?W \<le> 1" "0.02 \<le> 1100 / ?W"
    using W W0 by (simp_all add: field_simps)
  have "cropFloor v \<le> 1100 / ?W"
    by (simp add: cropFloor_def TARGET_ASPECT_width_def)
  with cw have "max (min (cropFloor v) 1) 0.02 \<le> 1100 / ?W" by simp
  then have "max (min (cropFloor v) 1) 0.02 * ?W \<le> 1100 / ?W * ?W"
    using W0 by (intro mult_right_mono) simp_all
  then show ?thesis
    using W0 by (simp add: minWidthPxOf_def metricsOf_sel TARGET_ASPECT_width_def)
qed

lemma sizeRect_position:
  "\<exists>l t. left_opt (sizeRect cw ch r) = Some (clamp l 0 (1 - cw))
       \<and> top_opt (sizeRect cw ch r) = Some (clamp t 0 (1 - ch))"
proof (cases "left_opt r")
  case None
  then show ?thesis by (auto simp: sizeRect_def)
next
  case (Some l)
  then show ?thesis by (cases "top_opt r") (auto simp: sizeRect_def)
qed

lemma sizeRect_good:
  assumes "goodVideo v"
  shows "goodRect v (cropFloor v)
           (sizeRect (TARGET_ASPECT_width / real (videoWidth v))
                     (TARGET_ASPECT_height / real (videoHeight v)) r)"
proof -
  let ?W = "real (videoWidth v)" and ?H = "real (videoHeight v)"
  let ?cw = "TARGET_ASPECT_width / ?W" and ?ch = "TARGET_ASPECT_height / ?H"
  let ?r = "sizeRect ?cw ?ch r"
  have W: "1100 \<le> ?W" and H: "1000 \<le> ?H" using assms by (simp_all add: goodVideo_def)
  have cw: "?cw \<le> 1" and ch: "?ch \<le> 1"
    using W H by (simp_all add: TARGET_ASPECT_width_def TARGET_ASPECT_height_def)
  obtain l t where lt: "left_opt ?r = Some (clamp l 0 (1 - ?cw))"
      "top_opt ?r = Some (clamp t 0 (1 - ?ch))"
    using sizeRect_position [of ?cw ?ch r] by blast
  have frame: "withinFrame ?r"
    using cw ch clamp_move_contained [of l ?cw] clamp_move_contained [of t ?ch]
    by (simp add: withinFrame_def lt sizeRect_sizes)
  have lock: "pixelAspectLocked v ?r"
    using W H by (simp add: pixelAspectLocked_def sizeRect_sizes TARGET_ASPECT_RATIO_def)
  have "widthRatio ?r * ?W = TARGET_ASPECT_width"
    using W by (simp add: sizeRect_sizes)
  with goodVideo_floor [OF assms]
  have width: "minWidthPxOf (cropFloor v) (metricsOf v) \<le> widthRatio ?r * ?W" by simp
  from frame lock width show ?thesis by (simp add: goodRect_def)
qed

lemma pointerMove_Move_good:
  assumes m: "interaction s = Some (Move i start pid tgt)"
    and g: "goodRect v mwr (rectangles s j)"
  shows "goodRect v mwr (rectangles (pointerMove v' b ev s) j)"
proof (cases "j = i \<and> bounds_width b \<noteq> 0 \<and> bounds_height b \<noteq> 0")
  case False
  then consider "j \<noteq> i" | "bounds_width b = 0 \<or> bounds_height b = 0" by blast
  then show ?thesis
  proof cases
    case 1
    then show ?thesis using g by (simp add: pointerMove_Move_other [OF m])
  next
    case 2
    then show ?thesis using g by (simp add: pointerMove_Move_zero_bounds [OF m])
  qed
next
  case True
  then have j: "j = i" and b: "bounds_width b \<noteq> 0" "bounds_height b \<noteq> 0" by simp_all
  let ?r = "rectangles s i"
  from g j have w: "widthRatio ?r \<le> 1" and h: "heightRatio ?r \<le> 1"
    by (auto simp: goodRect_def withinFrame_def split: option.splits)
  show ?thesis
    using g w h clamp_move_contained
    unfolding j pointerMove_Move [OF m b]
    by (simp add: goodRect_def withinFrame_def pixelAspectLocked_def)
qed

lemma updateRectSizeFromVideo_known:
  assumes "videoWidth v \<noteq> 0" and "videoHeight v \<noteq> 0"
  shows "minWidthRatio (updateRectSizeFromVideo v s) = cropFloor v"
    and "interaction (updateRectSizeFromVideo v s) = interaction s"
    and "rectangles (updateRectSizeFromVideo v s) i
           = sizeRect (TARGET_ASPECT_width / real (videoWidth v))
                      (TARGET_ASPECT_height / real (videoHeight v)) (rectangles s i)"
  using assms
  by (simp_all add: updateRectSizeFromVideo_def Let_def cropFloor_def TARGET_ASPECT_width_def)

lemma inv_good_update:
  assumes gv: "goodVideo v" and inv: "inv_good v s"
  shows "inv_good v (updateRectSizeFromVideo v s)"
proof -
  have v: "videoWidth v \<noteq> 0" "videoHeight v \<noteq> 0"
    using goodVideo_known [OF gv] by simp_all
  have st: "\<forall>i h start pid tgt. interaction s = Some (Resize i h start pid tgt) \<longrightarrow>
               goodStart (metricsOf v) (minWidthPxOf (cropFloor v) (metricsOf v)) start"
    using inv by (auto simp: inv_good_def)
  show ?thesis
    unfolding inv_good_def updateRectSizeFromVideo_known [OF v]
    using st sizeRect_good [OF gv] by blast
qed

lemma inv_good_pointerDown: "inv_good v s \<Longrightarrow> inv_good v (pointerDown ev i s)"
proof (cases "positioned (rectangles s i)")
  case False
  assume "inv_good v s"
  with False show ?thesis by (simp add: pointerDown_unpositioned)
next
  case True
  assume inv: "inv_good v s"
  from True obtain l t where "left_opt (rectangles s i) = Some l" "top_opt (rectangles s i) = Some t"
    by (auto simp: positioned_def)
  then have eq: "pointerDown ev i s = s\<lparr> interaction := Some (Move i
       \<lparr> start_clientX = clientX ev, start_clientY = clientY ev, start_left = l, start_top = t \<rparr>
       (pointerId ev) (RectElement i)) \<rparr>"
    by (rule pointerDown_positioned)
  from inv True show ?thesis
    unfolding eq inv_good_def by auto
qed

lemma inv_good_pointerDownResize:
  assumes gv: "goodVideo v" and inv: "inv_good v s"
  shows "inv_good v (pointerDownResize v ev i h s)"
proof (cases "positioned (rectangles s i)")
  case False
  with inv show ?thesis by (simp add: pointerDownResize_unpositioned)
next
  case True
  have v: "videoWidth v \<noteq> 0" "videoHeight v \<noteq> 0"
    using goodVideo_known [OF gv] by simp_all
  from inv True have mwr: "minWidthRatio s = cropFloor v"
    and all: "\<forall>j. goodRect v (cropFloor v) (rectangles s j)"
    by (auto simp: inv_good_def)
  from all have g: "goodRect v (cropFloor v) (rectangles s i)" by simp
  obtain start where r: "interaction (pointerDownResize v ev i h s)
                   = Some (Resize i h start (pointerId ev) (HandleElement i h))"
    and gs: "goodStart (metricsOf v) (minWidthPxOf (cropFloor v) (metricsOf v)) start"
    using pointerDownResize_goodStart [OF v g] by blast
  show ?thesis
    unfolding inv_good_def
    using mwr all r gs
    by (simp add: pointerDownResize_minWidthRatio pointerDownResize_rectangles)
qed

lemma inv_good_pointerMove:
  assumes gv: "goodVideo v" and inv: "inv_good v s"
  shows "inv_good v (pointerMove v b ev s)"
proof (cases "interaction s")
  case None
  with inv show ?thesis by (simp add: pointerMove_idle)
next
  case (Some a)
  have v: "videoWidth v \<noteq> 0" "videoHeight v \<noteq> 0"
    using goodVideo_known [OF gv] by simp_all
  from inv Some have mwr: "minWidthRatio s = cropFloor v"
    and all: "\<And>j. goodRect v (cropFloor v) (rectangles s j)"
    and st: "\<And>i h start pid tgt. interaction s = Some (Resize i h start pid tgt) \<Longrightarrow>
               goodStart (metricsOf v) (minWidthPxOf (cropFloor v) (metricsOf v)) start"
    by (auto simp: inv_good_def)
  have rects: "goodRect v (cropFloor v) (rectangles (pointerMove v b ev s) j)" for j
  proof (cases a)
    case (Move i start pid tgt)
    with Some have m: "interaction s = Some (Move i start pid tgt)" by simp
    show ?thesis by (rule pointerMove_Move_good [OF m all])
  next
    case (Resize i h start pid tgt)
    with Some have r: "interaction s = Some (Resize i h start pid tgt)" by simp
    show ?thesis
    proof (cases "j = i \<and> bounds_width b \<noteq> 0 \<and> bounds_height b \<noteq> 0")
      case True
      then have b: "bounds_width b \<noteq> 0" "bounds_height b \<noteq> 0" and j: "j = i" by simp_all
      have gs: "goodStart (metricsOf v) (minWidthPxOf (minWidthRatio s) (metricsOf v)) start"
        using st [OF r] by (simp add: mwr)
      show ?thesis
        using pointerMove_Resize_good [OF r v b gs] by (simp add: mwr j)
    next
      case False
      then consider "j \<noteq> i" | "bounds_width b = 0 \<or> bounds_height b = 0" by blast
      then show ?thesis
      proof cases
        case 1
        then show ?thesis using all by (simp add: pointerMove_Resize_other [OF r])
      next
        case 2
        then show ?thesis using all by (simp add: pointerMove_Resize_unchanged [OF r])
      qed
    qed
  qed
  show ?thesis
    unfolding inv_good_def pointerMove_interaction pointerMove_minWidthRatio
    using mwr rects st by blast
qed

lemma inv_good_endDrag: "inv_good v s \<Longrightarrow> inv_good v (endDrag s)"
  unfolding inv_good_def endDrag_def by auto

lemma inv_good_step:
  assumes gv: "goodVideo v" and inv: "inv_good v s"
  shows "inv_good v (step v s e)"
proof (cases e)
  case LoadedMetadata
  then show ?thesis by (simp add: inv_good_update [OF gv inv])
next
  case (PointerDownRect ev i)
  then show ?thesis by (simp add: inv_good_pointerDown [OF inv])
next
  case (PointerDownHandle ev i h)
  have "inv_good v (pointerDown ev i (pointerDownResize v ev i h s))"
    by (intro inv_good_pointerDown inv_good_pointerDownResize gv inv)
  then show ?thesis
    unfolding PointerDownHandle
    by (simp add: inv_good_pointerDownResize [OF gv inv] split: option.splits)
next
  case (PointerMoveDoc b ev)
  then show ?thesis by (simp add: inv_good_pointerMove [OF gv inv])
next
  case PointerUp
  then show ?thesis by (simp add: inv_good_endDrag [OF inv])
next
  case PointerCancel
  then show ?thesis by (simp add: inv_good_endDrag [OF inv])
qed

lemma inv_good_initial: "inv_good v initial_state"
  by (simp add: inv_good_def initial_state_def initial_rect1_def initial_rect2_def
      positioned_def split: rect_id.splits)

lemma inv_good_foldl: "goodVideo v \<Longrightarrow> inv_good v s \<Longrightarrow> inv_good v (foldl (step v) s evs)"
  by (induction evs arbitrary: s) (simp_all add: inv_good_step)

lemma run_positioned_good:
  assumes "goodVideo v" and "positioned (rectangles (run v evs) i)"
  shows "goodRect v (minWidthRatio (run v evs)) (rectangles (run v evs) i)"
proof -
  have "inv_good v (run v evs)"
    unfolding run_def by (rule inv_good_foldl [OF assms(1) inv_good_initial])
  with assms(2) show ?thesis by (auto simp: inv_good_def)
qed

lemma floor_le_target_box:
  assumes "videoWidth v \<noteq> 0" and "videoWidth v \<le> 55000"
  shows "minWidthPxOf (cropFloor v) (metricsOf v) \<le> TARGET_ASPECT_width"
proof -
  let ?W = "real (videoWidth v)"
  have W0: "0 < ?W" and W: "?W \<le> 55000" using assms by simp_all
  have cw: "0.02 \<le> 1100 / ?W" using W W0 by (simp add: field_simps)
  have "cropFloor v \<le> 1100 / ?W"
    by (simp add: cropFloor_def TARGET_ASPECT_width_def)
  then have "min (cropFloor v) 1 \<le> 1100 / ?W" by simp
  with cw have "max (min (cropFloor v) 1) 0.02 \<le> 1100 / ?W" by simp
  then have "max (min (cropFloor v) 1) 0.02 * ?W \<le> 1100 / ?W * ?W"
    using W0 by (intro mult_right_mono) simp_all
  then show ?thesis
    using W0 by (simp add: minWidthPxOf_def metricsOf_sel TARGET_ASPECT_width_def)
qed

lemma inv_floor_update:
  assumes w: "videoWidth v \<le> 55000" and inv: "inv_floor v s"
  shows "inv_floor v (updateRectSizeFromVideo v s)"
proof (cases "videoWidth v = 0 \<or> videoHeight v = 0")
  case True
  with inv show ?thesis by (simp add: updateRectSizeFromVideo_unknown)
next
  case False
  then have v: "videoWidth v \<noteq> 0" "videoHeight v \<noteq> 0" by simp_all
  have "widthRatio (rectangles (updateRectSizeFromVideo v s) i) * real (videoWidth v)
          = TARGET_ASPECT_width" for i
    using v by (simp add: updateRectSizeFromVideo_known [OF v] sizeRect_sizes)
  then show ?thesis
    using floor_le_target_box [OF v(1) w]
    by (simp add: inv_floor_def updateRectSizeFromVideo_known(1) [OF v])
qed

lemma inv_floor_pointerDown: "inv_floor v s \<Longrightarrow> inv_floor v (pointerDown ev i s)"
proof (cases "positioned (rectangles s i)")
  case False
  assume "inv_floor v s"
  with False show ?thesis by (simp add: pointerDown_unpositioned)
next
  case True
  assume inv: "inv_floor v s"
  have "minWidthRatio (pointerDown ev i s) = minWidthRatio s"
    by (simp add: pointerDown_def split: option.splits)
  with inv True show ?thesis
    unfolding inv_floor_def pointerDown_rectangles by auto
qed

lemma inv_floor_pointerDownResize:
  "inv_floor v s \<Longrightarrow> inv_floor v (pointerDownResize v ev i h s)"
proof (cases "positioned (rectangles s i)")
  case False
  assume "inv_floor v s"
  with False show ?thesis by (simp add: pointerDownResize_unpositioned)
next
  case True
  assume inv: "inv_floor v s"
  with True show ?thesis
    unfolding inv_floor_def pointerDownResize_rectangles pointerDownResize_minWidthRatio by auto
qed

lemma inv_floor_pointerMove:
  assumes inv: "inv_floor v s"
  shows "inv_floor v (pointerMove v b ev s)"
proof (cases "interaction s")
  case None
  with inv show ?thesis by (simp add: pointerMove_idle)
next
  case (Some a)
  with inv have mwr: "minWidthRatio s = cropFloor v"
    and all: "\<And>j. minWidthPxOf (cropFloor v) (metricsOf v)
                  \<le> widthRatio (rectangles s j) * real (videoWidth v)"
    by (auto simp: inv_floor_def)
  have "minWidthPxOf (cropFloor v) (metricsOf v)
          \<le> widthRatio (rectangles (pointerMove v b ev s) j) * real (videoWidth v)" for j
  proof (cases a)
    case (Move i start pid tgt)
    with Some have m: "interaction s = Some (Move i start pid tgt)" by simp
    show ?thesis using all by (simp add: pointerMove_Move_sizes [OF m])
  next
    case (Resize i h start pid tgt)
    with Some have r: "interaction s = Some (Resize i h start pid tgt)" by simp
    show ?thesis
    proof (cases "j = i \<and> videoWidth v \<noteq> 0 \<and> videoHeight v \<noteq> 0
                   \<and> bounds_width b \<noteq> 0 \<and> bounds_height b \<noteq> 0")
      case True
      then show ?thesis
        using pointerMove_Resize_widthPx_lower [OF r, of v b ev] by (simp add: mwr)
    next
      case False
      then consider "j \<noteq> i"
        | "videoWidth v = 0 \<or> videoHeight v = 0 \<or> bounds_width b = 0 \<or> bounds_height b = 0"
        by auto
      then show ?thesis
      proof cases
        case 1
        then show ?thesis using all by (simp add: pointerMove_Resize_other [OF r])
      next
        case 2
        then show ?thesis using all by (simp add: pointerMove_Resize_unchanged [OF r])
      qed
    qed
  qed
  then show ?thesis
    unfolding inv_floor_def pointerMove_minWidthRatio using mwr by blast
qed

lemma inv_floor_endDrag: "inv_floor v s \<Longrightarrow> inv_floor v (endDrag s)"
  unfolding inv_floor_def endDrag_def by auto

lemma inv_floor_step:
  assumes w: "videoWidth v \<le> 55000" and inv: "inv_floor v s"
  shows "inv_floor v (step v s e)"
proof (cases e)
  case LoadedMetadata
  then show ?thesis by (simp add: inv_floor_update [OF w inv])
next
  case (PointerDownRect ev i)
  then show ?thesis by (simp add: inv_floor_pointerDown [OF inv])
next
  case (PointerDownHandle ev i h)
  have "inv_floor v (pointerDown ev i (pointerDownResize v ev i h s))"
    by (intro inv_floor_pointerDown inv_floor_pointerDownResize inv)
  then show ?thesis
    unfolding PointerDownHandle
    by (simp add: inv_floor_pointerDownResize [OF inv] split: option.splits)
next
  case (PointerMoveDoc b ev)
  then show ?thesis by (simp add: inv_floor_pointerMove [OF inv])
next
  case PointerUp
  then show ?thesis by (simp add: inv_floor_endDrag [OF inv])
next
  case PointerCancel
  then show ?thesis by (simp add: inv_floor_endDrag [OF inv])
qed

lemma inv_floor_initial: "inv_floor v initial_state"
  by (simp add: inv_floor_def initial_state_def initial_rect1_def initial_rect2_def
      positioned_def split: rect_id.splits)

lemma inv_floor_foldl:
  "videoWidth v \<le> 55000 \<Longrightarrow> inv_floor v s \<Longrightarrow> inv_floor v (foldl (step v) s evs)"
  by (induction evs arbitrary: s) (simp_all add: inv_floor_step)

lemma withinFrame_positioned: "withinFrame r \<Longrightarrow> positioned r"
  by (auto simp: withinFrame_def positioned_def split: option.splits)

lemma run_withinFrame_good:
  assumes w: "videoWidth v \<le> 55000" and f: "withinFrame (rectangles (run v evs) i)"
  shows "videoWidth v \<noteq> 0 \<and> videoHeight v \<noteq> 0
       \<and> goodRect v (minWidthRatio (run v evs)) (rectangles (run v evs) i)"
proof -
  have p: "positioned (rectangles (run v evs) i)" by (rule withinFrame_positioned [OF f])
  have "inv_floor v (run v evs)"
    unfolding run_def by (rule inv_floor_foldl [OF w inv_floor_initial])
  with p have "minWidthPxOf (minWidthRatio (run v evs)) (metricsOf v)
                 \<le> widthRatio (rectangles (run v evs) i) * real (videoWidth v)"
    by (auto simp: inv_floor_def)
  with f run_positioned_locked [OF p] show ?thesis by (simp add: goodRect_def)
qed

lemma video_1280_720_sel:
  "videoWidth video_1280_720 = 1280" "videoHeight video_1280_720 = 720"
  by (simp_all add: video_1280_720_def)

lemma sized_1280_720_rect1:
  "rectangles sized_1280_720 RectSpeaker1 =
     initial_rect1\<lparr> widthRatio := 1100 / 1280, heightRatio := 1000 / 720,
                    left_opt := Some 0.05, top_opt := Some 0 \<rparr>"
  by (simp add: sized_1280_720_def updateRectSizeFromVideo_def video_1280_720_sel
      initial_state_def initial_rect1_def sizeRect_def clamp_def Let_def
      TARGET_ASPECT_width_def TARGET_ASPECT_height_def)

lemma sized_1280_720_minWidthRatio: "minWidthRatio sized_1280_720 = 55 / 128"
  by (simp add: sized_1280_720_def updateRectSizeFromVideo_def video_1280_720_sel Let_def
      TARGET_ASPECT_width_def)

lemma resizing_1280_720_interaction:
  "interaction resizing_1280_720 = Some (Resize RectSpeaker1 TopLeft start_1280_720
     1 (HandleElement RectSpeaker1 TopLeft))"
  by (simp add: resizing_1280_720_def pointerDownResize_def sized_1280_720_rect1
      getVideoMetrics_def video_1280_720_sel event_at_def start_1280_720_def)

lemma resizing_1280_720_rest:
  "rectangles resizing_1280_720 = rectangles sized_1280_720"
  "minWidthRatio resizing_1280_720 = 55 / 128"
  by (simp_all add: resizing_1280_720_def pointerDownResize_def sized_1280_720_rect1
      getVideoMetrics_def video_1280_720_sel sized_1280_720_minWidthRatio)

lemma resized_1280_720_rect1:
  "rectangles resized_1280_720 RectSpeaker1 =
     initial_rect1\<lparr> widthRatio := 550 / 1280, heightRatio := 500 / 720,
                    left_opt := Some (614 / 1280), top_opt := Some (220 / 720) \<rparr>"
proof -
  have v: "videoWidth video_1280_720 \<noteq> 0" "videoHeight video_1280_720 \<noteq> 0"
    by (simp_all add: video_1280_720_sel)
  have b: "bounds_width overlay_960_540 \<noteq> 0" "bounds_height overlay_960_540 \<noteq> 0"
    by (simp_all add: overlay_960_540_sel)
  have p: "eventPx video_1280_720 overlay_960_540 (event_at 480 270 1) = (640, 360)"
    by (simp add: eventPx_def video_1280_720_sel overlay_960_540_sel event_at_def clamp_def)
  have lo: "minWidthPxOf (55 / 128) (metricsOf video_1280_720) = 550"
    by (simp add: minWidthPxOf_def metricsOf_def video_1280_720_sel)
  have w: "computeWidthPx (metricsOf video_1280_720) 550 524 640 1100 = 550"
    by (simp add: computeWidthPx_def metricsOf_def video_1280_720_sel Let_def clamp_def
        TARGET_ASPECT_RATIO_value)
  have "resizeCase (metricsOf video_1280_720) 550 TopLeft start_1280_720 (640, 360)
          (rectangles sized_1280_720 RectSpeaker1)
        = applyValues (metricsOf video_1280_720) 550 (rectangles sized_1280_720 RectSpeaker1)
            614 500 550"
    by (simp add: resizeCase_def start_1280_720_def Let_def metricsOf_sel video_1280_720_sel
        TARGET_ASPECT_RATIO_value w)
  also have "\<dots> = initial_rect1\<lparr> widthRatio := 550 / 1280, heightRatio := 500 / 720,
                    left_opt := Some (614 / 1280), top_opt := Some (220 / 720) \<rparr>"
    by (simp add: applyValues_def Let_def metricsOf_def video_1280_720_sel clamp_def
        TARGET_ASPECT_RATIO_value sized_1280_720_rect1)
  finally show ?thesis
    unfolding resized_1280_720_def
    by (simp add: pointerMove_Resize [OF resizing_1280_720_interaction v b]
        resizing_1280_720_rest p lo)
qed

text \<open>
  Claim C5, as the code has it, in exact arithmetic. When the rectangle at the start of a
  resize lies within the frame, the corner opposite the dragged handle is at the same
  pixel position in every state that the pointer-moves of the resize produce, for each of
  the four handles and every pointer position: this holds from every state the page
  reaches, for videos at most 55000 pixels wide, and from any state whose rectangle lies
  within the frame, holds the target ratio in pixels and is at least as wide as the floor.
  For videos with \<open>1100 \<le> videoWidth \<le> 55000\<close> and \<open>1000 \<le> videoHeight\<close> every placed
  rectangle of every state the page reaches lies within the frame.
\<close>

theorem resize_keeps_anchor_of_rect_within_frame:
  "(videoWidth v \<le> 55000 \<and> withinFrame (rectangles (run v evs) i)
      \<longrightarrow> spec_cornerPx (metricsOf v) h (rectangles (run v evs) i) \<noteq> None
        \<and> spec_cornerPx (metricsOf v) h
             (rectangles (pointerMoves v moves (pointerDownResize v ev i h (run v evs))) i)
           = spec_cornerPx (metricsOf v) h (rectangles (run v evs) i))
   \<and> (videoWidth v \<noteq> 0 \<and> videoHeight v \<noteq> 0 \<and> goodRect v (minWidthRatio s) (rectangles s i)
      \<longrightarrow> spec_cornerPx (metricsOf v) h (rectangles s i) \<noteq> None
        \<and> spec_cornerPx (metricsOf v) h
             (rectangles (pointerMoves v moves (pointerDownResize v ev i h s)) i)
           = spec_cornerPx (metricsOf v) h (rectangles s i))
   \<and> (goodVideo v \<and> positioned (rectangles (run v evs) i)
      \<longrightarrow> withinFrame (rectangles (run v evs) i))"
proof (intro conjI impI)
  assume a: "videoWidth v \<le> 55000 \<and> withinFrame (rectangles (run v evs) i)"
  then have g: "videoWidth v \<noteq> 0 \<and> videoHeight v \<noteq> 0
       \<and> goodRect v (minWidthRatio (run v evs)) (rectangles (run v evs) i)"
    using run_withinFrame_good [of v evs i] by blast
  then have "goodRect v (minWidthRatio (run v evs)) (rectangles (run v evs) i)" by simp
  then show "spec_cornerPx (metricsOf v) h (rectangles (run v evs) i) \<noteq> None"
    by (rule goodRect_cornerPx)
  from g show "spec_cornerPx (metricsOf v) h
             (rectangles (pointerMoves v moves (pointerDownResize v ev i h (run v evs))) i)
           = spec_cornerPx (metricsOf v) h (rectangles (run v evs) i)"
    by (simp add: resize_anchor_from_goodRect)
next
  assume a: "videoWidth v \<noteq> 0 \<and> videoHeight v \<noteq> 0
           \<and> goodRect v (minWidthRatio s) (rectangles s i)"
  then have "goodRect v (minWidthRatio s) (rectangles s i)" by simp
  then show "spec_cornerPx (metricsOf v) h (rectangles s i) \<noteq> None"
    by (rule goodRect_cornerPx)
  from a show "spec_cornerPx (metricsOf v) h
             (rectangles (pointerMoves v moves (pointerDownResize v ev i h s)) i)
           = spec_cornerPx (metricsOf v) h (rectangles s i)"
    by (simp add: resize_anchor_from_goodRect)
next
  assume "goodVideo v \<and> positioned (rectangles (run v evs) i)"
  then show "withinFrame (rectangles (run v evs) i)"
    using run_positioned_good [of v evs i] by (simp add: goodRect_def)
qed

text \<open>
  For a video of 1280 by 720 pixels the rectangle is 1000 pixels high after the initial
  sizing; a drag of its top-left handle moves its bottom-right corner from
  \<open>(1164, 1000)\<close> to \<open>(1164, 720)\<close>.
\<close>

theorem resize_anchor_counterexample:
  "spec_cornerPx (metricsOf video_1280_720) TopLeft (rectangles resizing_1280_720 RectSpeaker1)
     = Some (1164, 1000)
   \<and> spec_cornerPx (metricsOf video_1280_720) TopLeft (rectangles resized_1280_720 RectSpeaker1)
     = Some (1164, 720)"
  by (simp add: spec_cornerPx_def resizing_1280_720_rest sized_1280_720_rect1
      resized_1280_720_rect1 metricsOf_def video_1280_720_sel)

lemma sized_1920_1080_rect1_good:
  "goodRect video_1920_1080 (minWidthRatio sized_1920_1080)
     (rectangles sized_1920_1080 RectSpeaker1)"
  by (simp add: goodRect_def withinFrame_def pixelAspectLocked_def sized_1920_1080_rect1
      sized_1920_1080_minWidthRatio video_1920_1080_sel TARGET_ASPECT_RATIO_value
      minWidthPxOf_def metricsOf_def)

lemma run_events_sized_1920_1080: "run video_1920_1080 events_sized_1920_1080 = sized_1920_1080"
  by (simp add: run_def events_sized_1920_1080_def sized_1920_1080_def)

lemma resizing_top_left_1920_1080_interaction:
  "interaction resizing_top_left_1920_1080 = Some (Resize RectSpeaker1 TopLeft start_1920_1080
     1 (HandleElement RectSpeaker1 TopLeft))"
  by (simp add: resizing_top_left_1920_1080_def pointerDownResize_def sized_1920_1080_rect1
      getVideoMetrics_def video_1920_1080_sel event_at_def start_1920_1080_def)

lemma resizing_top_left_1920_1080_rest:
  "rectangles resizing_top_left_1920_1080 = rectangles sized_1920_1080"
  "minWidthRatio resizing_top_left_1920_1080 = 550 / 1920"
  by (simp_all add: resizing_top_left_1920_1080_def pointerDownResize_def sized_1920_1080_rect1
      getVideoMetrics_def video_1920_1080_sel sized_1920_1080_minWidthRatio)

lemma resized_top_left_1920_1080_rect1:
  "rectangles (pointerMoves video_1920_1080 [(overlay_960_540, event_at 480 270 1)]
       (pointerDownResize video_1920_1080 (event_at 48 40 1) RectSpeaker1 TopLeft
          sized_1920_1080)) RectSpeaker1 =
     initial_rect1\<lparr> widthRatio := 550 / 1920, heightRatio := 500 / 1080,
                    left_opt := Some (646 / 1920), top_opt := Some (580 / 1080) \<rparr>"
proof -
  have v: "videoWidth video_1920_1080 \<noteq> 0" "videoHeight video_1920_1080 \<noteq> 0"
    by (simp_all add: video_1920_1080_sel)
  have b: "bounds_width overlay_960_540 \<noteq> 0" "bounds_height overlay_960_540 \<noteq> 0"
    by (simp_all add: overlay_960_540_sel)
  have p: "eventPx video_1920_1080 overlay_960_540 (event_at 480 270 1) = (960, 540)"
    by (simp add: eventPx_def video_1920_1080_sel overlay_960_540_sel event_at_def clamp_def)
  have lo: "minWidthPxOf (55 / 192) (metricsOf video_1920_1080) = 550"
    by (simp add: minWidthPxOf_def metricsOf_def video_1920_1080_sel)
  have w: "computeWidthPx (metricsOf video_1920_1080) 550 236 540 1188 = 550"
    by (simp add: computeWidthPx_def metricsOf_def video_1920_1080_sel Let_def clamp_def
        TARGET_ASPECT_RATIO_value)
  have "resizeCase (metricsOf video_1920_1080) 550 TopLeft start_1920_1080 (960, 540)
          (rectangles sized_1920_1080 RectSpeaker1)
        = applyValues (metricsOf video_1920_1080) 550 (rectangles sized_1920_1080 RectSpeaker1)
            646 580 550"
    by (simp add: resizeCase_def start_1920_1080_def Let_def metricsOf_sel video_1920_1080_sel
        TARGET_ASPECT_RATIO_value w)
  also have "\<dots> = initial_rect1\<lparr> widthRatio := 550 / 1920, heightRatio := 500 / 1080,
                    left_opt := Some (646 / 1920), top_opt := Some (580 / 1080) \<rparr>"
    by (simp add: applyValues_def Let_def metricsOf_def video_1920_1080_sel clamp_def
        TARGET_ASPECT_RATIO_value sized_1920_1080_rect1)
  finally show ?thesis
    unfolding resizing_top_left_1920_1080_def [symmetric] pointerMoves_Cons pointerMoves_Nil
    by (simp add: pointerMove_Resize [OF resizing_top_left_1920_1080_interaction v b]
        resizing_top_left_1920_1080_rest p lo)
qed

text \<open>
  A video of 1920 by 1080 pixels, whose first rectangle lies within the frame after the
  initial sizing, with its corners at \<open>(96, 80)\<close> and \<open>(1196, 1080)\<close>: a drag of each of
  the four handles keeps the opposite corner where it was. The drag of the top-left
  handle halves the width and moves the rectangle's origin to \<open>(646, 580)\<close>.
\<close>

theorem resize_keeps_anchor_1920_1080:
  "videoWidth video_1920_1080 \<le> 55000
   \<and> withinFrame (rectangles (run video_1920_1080 events_sized_1920_1080) RectSpeaker1)
   \<and> videoWidth video_1920_1080 \<noteq> 0 \<and> videoHeight video_1920_1080 \<noteq> 0
   \<and> goodRect video_1920_1080 (minWidthRatio sized_1920_1080)
        (rectangles sized_1920_1080 RectSpeaker1)
   \<and> goodVideo video_1920_1080
   \<and> positioned (rectangles (run video_1920_1080 events_sized_1920_1080) RectSpeaker1)
   \<and> spec_cornerPx (metricsOf video_1920_1080) TopLeft
        (rectangles sized_1920_1080 RectSpeaker1) = Some (1196, 1080)
   \<and> spec_cornerPx (metricsOf video_1920_1080) TopRight
        (rectangles sized_1920_1080 RectSpeaker1) = Some (96, 1080)
   \<and> spec_cornerPx (metricsOf video_1920_1080) BottomLeft
        (rectangles sized_1920_1080 RectSpeaker1) = Some (1196, 80)
   \<and> spec_cornerPx (metricsOf video_1920_1080) BottomRight
        (rectangles sized_1920_1080 RectSpeaker1) = Some (96, 80)
   \<and> widthRatio (rectangles (pointerMoves video_1920_1080
           [(overlay_960_540, event_at 480 270 1)]
           (pointerDownResize video_1920_1080 (event_at 48 40 1) RectSpeaker1 TopLeft
              sized_1920_1080)) RectSpeaker1) = 550 / 1920
   \<and> left_opt (rectangles (pointerMoves video_1920_1080
           [(overlay_960_540, event_at 480 270 1)]
           (pointerDownResize video_1920_1080 (event_at 48 40 1) RectSpeaker1 TopLeft
              sized_1920_1080)) RectSpeaker1) = Some (646 / 1920)
   \<and> spec_cornerPx (metricsOf video_1920_1080) TopLeft
        (rectangles (pointerMoves video_1920_1080
           [(overlay_960_540, event_at 480 270 1)]
           (pointerDownResize video_1920_1080 (event_at 48 40 1) RectSpeaker1 TopLeft
              sized_1920_1080)) RectSpeaker1) = Some (1196, 1080)
   \<and> spec_cornerPx (metricsOf video_1920_1080) TopLeft
        (rectangles (pointerMoves video_1920_1080
           [(overlay_960_540, event_at 480 270 1), (overlay_960_540, event_at 0 50 1)]
           (pointerDownResize video_1920_1080 (event_at 48 40 1) RectSpeaker1 TopLeft
              (run video_1920_1080 events_sized_1920_1080))) RectSpeaker1) = Some (1196, 1080)
   \<and> spec_cornerPx (metricsOf video_1920_1080) TopRight
        (rectangles (pointerMoves video_1920_1080
           [(overlay_960_540, event_at 480 270 1), (overlay_960_540, event_at 900 20 1)]
           (pointerDownResize video_1920_1080 (event_at 598 40 1) RectSpeaker1 TopRight
              sized_1920_1080)) RectSpeaker1) = Some (96, 1080)
   \<and> spec_cornerPx (metricsOf video_1920_1080) BottomLeft
        (rectangles (pointerMoves video_1920_1080
           [(overlay_960_540, event_at 480 270 1), (overlay_960_540, event_at 10 530 1)]
           (pointerDownResize video_1920_1080 (event_at 48 540 1) RectSpeaker1 BottomLeft
              sized_1920_1080)) RectSpeaker1) = Some (1196, 80)
   \<and> spec_cornerPx (metricsOf video_1920_1080) BottomRight
        (rectangles (pointerMoves video_1920_1080
           [(overlay_960_540, event_at 480 270 1), (overlay_960_540, event_at 900 500 1)]
           (pointerDownResize video_1920_1080 (event_at 598 540 1) RectSpeaker1 BottomRight
              sized_1920_1080)) RectSpeaker1) = Some (96, 80)"
proof -
  let ?m = "metricsOf video_1920_1080"
  let ?r = "rectangles sized_1920_1080 RectSpeaker1"
  have w: "videoWidth video_1920_1080 \<le> 55000"
    by (simp add: video_1920_1080_sel)
  have v: "videoWidth video_1920_1080 \<noteq> 0 \<and> videoHeight video_1920_1080 \<noteq> 0"
    by (simp add: video_1920_1080_sel)
  note g = sized_1920_1080_rect1_good
  have f: "withinFrame (rectangles (run video_1920_1080 events_sized_1920_1080) RectSpeaker1)"
    using g by (simp add: run_events_sized_1920_1080 goodRect_def)
  have gv: "goodVideo video_1920_1080"
    by (simp add: goodVideo_def video_1920_1080_sel)
  have p: "positioned (rectangles (run video_1920_1080 events_sized_1920_1080) RectSpeaker1)"
    by (simp add: run_events_sized_1920_1080 sized_1920_1080_rect1 positioned_def)
  have c: "spec_cornerPx ?m TopLeft ?r = Some (1196, 1080)"
    "spec_cornerPx ?m TopRight ?r = Some (96, 1080)"
    "spec_cornerPx ?m BottomLeft ?r = Some (1196, 80)"
    "spec_cornerPx ?m BottomRight ?r = Some (96, 80)"
    by (simp_all add: spec_cornerPx_def sized_1920_1080_rect1 metricsOf_def video_1920_1080_sel)
  have moved: "widthRatio (rectangles (pointerMoves video_1920_1080
           [(overlay_960_540, event_at 480 270 1)]
           (pointerDownResize video_1920_1080 (event_at 48 40 1) RectSpeaker1 TopLeft
              sized_1920_1080)) RectSpeaker1) = 550 / 1920
     \<and> left_opt (rectangles (pointerMoves video_1920_1080
           [(overlay_960_540, event_at 480 270 1)]
           (pointerDownResize video_1920_1080 (event_at 48 40 1) RectSpeaker1 TopLeft
              sized_1920_1080)) RectSpeaker1) = Some (646 / 1920)"
    by (simp add: resized_top_left_1920_1080_rect1)
  note t0 = resize_keeps_anchor_of_rect_within_frame
    [of video_1920_1080 events_sized_1920_1080 RectSpeaker1 TopLeft
        "[(overlay_960_540, event_at 480 270 1)]"
        "event_at 48 40 1" sized_1920_1080]
  note t1 = resize_keeps_anchor_of_rect_within_frame
    [of video_1920_1080 events_sized_1920_1080 RectSpeaker1 TopLeft
        "[(overlay_960_540, event_at 480 270 1), (overlay_960_540, event_at 0 50 1)]"
        "event_at 48 40 1" sized_1920_1080]
  note t2 = resize_keeps_anchor_of_rect_within_frame
    [of video_1920_1080 events_sized_1920_1080 RectSpeaker1 TopRight
        "[(overlay_960_540, event_at 480 270 1), (overlay_960_540, event_at 900 20 1)]"
        "event_at 598 40 1" sized_1920_1080]
  note t3 = resize_keeps_anchor_of_rect_within_frame
    [of video_1920_1080 events_sized_1920_1080 RectSpeaker1 BottomLeft
        "[(overlay_960_540, event_at 480 270 1), (overlay_960_540, event_at 10 530 1)]"
        "event_at 48 540 1" sized_1920_1080]
  note t4 = resize_keeps_anchor_of_rect_within_frame
    [of video_1920_1080 events_sized_1920_1080 RectSpeaker1 BottomRight
        "[(overlay_960_540, event_at 480 270 1), (overlay_960_540, event_at 900 500 1)]"
        "event_at 598 540 1" sized_1920_1080]
  have c0: "spec_cornerPx ?m TopLeft
        (rectangles (pointerMoves video_1920_1080
           [(overlay_960_540, event_at 480 270 1)]
           (pointerDownResize video_1920_1080 (event_at 48 40 1) RectSpeaker1 TopLeft
              sized_1920_1080)) RectSpeaker1) = Some (1196, 1080)"
    using t0 v g c(1) by simp
  have c1: "spec_cornerPx ?m TopLeft
        (rectangles (pointerMoves video_1920_1080
           [(overlay_960_540, event_at 480 270 1), (overlay_960_540, event_at 0 50 1)]
           (pointerDownResize video_1920_1080 (event_at 48 40 1) RectSpeaker1 TopLeft
              (run video_1920_1080 events_sized_1920_1080))) RectSpeaker1) = Some (1196, 1080)"
    using t1 w f c(1) by (simp add: run_events_sized_1920_1080)
  have c2: "spec_cornerPx ?m TopRight
        (rectangles (pointerMoves video_1920_1080
           [(overlay_960_540, event_at 480 270 1), (overlay_960_540, event_at 900 20 1)]
           (pointerDownResize video_1920_1080 (event_at 598 40 1) RectSpeaker1 TopRight
              sized_1920_1080)) RectSpeaker1) = Some (96, 1080)"
    using t2 v g c(2) by simp
  have c3: "spec_cornerPx ?m BottomLeft
        (rectangles (pointerMoves video_1920_1080
           [(overlay_960_540, event_at 480 270 1), (overlay_960_540, event_at 10 530 1)]
           (pointerDownResize video_1920_1080 (event_at 48 540 1) RectSpeaker1 BottomLeft
              sized_1920_1080)) RectSpeaker1) = Some (1196, 80)"
    using t3 v g c(3) by simp
  have c4: "spec_cornerPx ?m BottomRight
        (rectangles (pointerMoves video_1920_1080
           [(overlay_960_540, event_at 480 270 1), (overlay_960_540, event_at 900 500 1)]
           (pointerDownResize video_1920_1080 (event_at 598 540 1) RectSpeaker1 BottomRight
              sized_1920_1080)) RectSpeaker1) = Some (96, 80)"
    using t4 v g c(4) by simp
  from w f v g gv p c moved c0 c1 c2 c3 c4 show ?thesis by blast
qed

subsection \<open>Containment\<close>









subsection \<open>Submission outcomes\<close>












theorem resize_width_floor_3840_2160:
  "interaction resizing_3840_2160 = Some (Resize RectSpeaker1 BottomRight start_3840_2160
     1 (HandleElement RectSpeaker1 BottomRight))
   \<and> videoWidth video_3840_2160 \<noteq> 0 \<and> videoHeight video_3840_2160 \<noteq> 0
   \<and> bounds_width overlay_960_540 \<noteq> 0 \<and> bounds_height overlay_960_540 \<noteq> 0
   \<and> minWidthRatio resizing_3840_2160 \<le> 1
   \<and> 0.03 \<le> TARGET_ASPECT_width / real (videoWidth video_3840_2160)
   \<and> minWidthRatio resizing_3840_2160 * 3840 = 550
   \<and> 550 \<le> widthRatio (rectangles resized_3840_2160 RectSpeaker1) * 3840
   \<and> minWidthRatio (updateRectSizeFromVideo video_3840_2160 initial_state) = 550 / 3840
   \<and> 550 \<le> videoWidth video_3840_2160"
proof -
  note i = resizing_3840_2160_interaction
  have v: "videoWidth video_3840_2160 \<noteq> 0 \<and> videoHeight video_3840_2160 \<noteq> 0"
    by (simp add: video_3840_2160_sel)
  have b: "bounds_width overlay_960_540 \<noteq> 0 \<and> bounds_height overlay_960_540 \<noteq> 0"
    by (simp add: overlay_960_540_sel)
  have m: "minWidthRatio resizing_3840_2160 \<le> 1" "minWidthRatio resizing_3840_2160 * 3840 = 550"
    by (simp_all add: resizing_3840_2160_minWidthRatio)
  have cw: "0.03 \<le> TARGET_ASPECT_width / real (videoWidth video_3840_2160)"
    by (simp add: TARGET_ASPECT_width_def video_3840_2160_sel)
  note t = resize_width_floor
    [of resizing_3840_2160 RectSpeaker1 BottomRight start_3840_2160 1
        "HandleElement RectSpeaker1 BottomRight" video_3840_2160 overlay_960_540
        "event_at 0 0 1" initial_state]
  have c1: "minWidthRatio resizing_3840_2160 * real (videoWidth video_3840_2160)
      \<le> widthRatio (rectangles resized_3840_2160 RectSpeaker1) * real (videoWidth video_3840_2160)"
    unfolding resized_3840_2160_def using t i v b m(1) by blast
  then have c1': "550 \<le> widthRatio (rectangles resized_3840_2160 RectSpeaker1) * 3840"
    by (simp add: video_3840_2160_sel resizing_3840_2160_minWidthRatio)
  have "minWidthRatio (updateRectSizeFromVideo video_3840_2160 initial_state)
      = clamp (TARGET_ASPECT_width / real (videoWidth video_3840_2160) * 0.5) 0.03
          (TARGET_ASPECT_width / real (videoWidth video_3840_2160))"
    using t v cw by blast
  then have c2: "minWidthRatio (updateRectSizeFromVideo video_3840_2160 initial_state) = 550 / 3840"
    by (simp add: clamp_def TARGET_ASPECT_width_def video_3840_2160_sel)
  have c3: "550 \<le> videoWidth video_3840_2160"
    by (simp add: video_3840_2160_sel)
  from i v b m cw c1' c2 c3 show ?thesis by blast
qed

lemma moving_1280_720_interaction:
  "interaction moving_1280_720 = Some (Move RectSpeaker1
     \<lparr> start_clientX = 100, start_clientY = 100, start_left = 0.05, start_top = 0 \<rparr>
     1 (RectElement RectSpeaker1))"
  by (simp add: moving_1280_720_def pointerDown_def sized_1280_720_rect1 event_at_def)

lemma moving_1280_720_rectangles: "rectangles moving_1280_720 = rectangles sized_1280_720"
  by (simp add: moving_1280_720_def pointerDown_def sized_1280_720_rect1)

text \<open>
  For a video of 1280 by 720 pixels the rectangle is higher than the frame
  (\<open>heightRatio = 25 / 18\<close>), so the interval \<open>[0, 1 - heightRatio]\<close> is empty: a move by a
  tenth of the overlay downwards from \<open>top = 0\<close> leaves \<open>top\<close> at 0, which is neither the
  origin plus the delta nor a value of that interval.
\<close>

theorem pointerMove_moving_counterexample:
  "start_top \<lparr> start_clientX = 100, start_clientY = 100, start_left = 0.05, start_top = 0 \<rparr>
     + (clientY (event_at 196 154 1) - 100) / bounds_height overlay_960_540 = 1 / 10
   \<and> top_opt (rectangles (pointerMove video_1280_720 overlay_960_540 (event_at 196 154 1)
        moving_1280_720) RectSpeaker1) = Some 0
   \<and> heightRatio (rectangles (pointerMove video_1280_720 overlay_960_540 (event_at 196 154 1)
        moving_1280_720) RectSpeaker1) = 25 / 18
   \<and> \<not> (0 \<le> 1 - heightRatio (rectangles (pointerMove video_1280_720 overlay_960_540
              (event_at 196 154 1) moving_1280_720) RectSpeaker1))"
  by (simp add: pointerMove_def moving_1280_720_interaction moving_1280_720_rectangles
      sized_1280_720_rect1 overlay_960_540_sel event_at_def Let_def clamp_def)

text \<open>
  Moves on a video of 1920 by 1080 pixels: into the interior, to the lower bound and to
  the upper bound of each axis; a zero-size overlay; and a rectangle higher than the
  frame.
\<close>

theorem pointerMove_moving_witness:
  "interaction moving_1920_1080 = Some (Move RectSpeaker1
     \<lparr> start_clientX = 100, start_clientY = 100, start_left = 0.05, start_top = 2 / 27 \<rparr>
     1 (RectElement RectSpeaker1))
   \<and> interaction moving_1280_720 = Some (Move RectSpeaker1
     \<lparr> start_clientX = 100, start_clientY = 100, start_left = 0.05, start_top = 0 \<rparr>
     1 (RectElement RectSpeaker1))
   \<and> RectSpeaker2 \<noteq> RectSpeaker1
   \<and> bounds_width overlay_960_540 \<noteq> 0 \<and> bounds_height overlay_960_540 \<noteq> 0
   \<and> (bounds_width overlay_0_0 = 0 \<or> bounds_height overlay_0_0 = 0)
   \<and> widthRatio (rectangles moving_1920_1080 RectSpeaker1) \<le> 1
   \<and> heightRatio (rectangles moving_1920_1080 RectSpeaker1) \<le> 1
   \<and> left_opt (rectangles sized_1920_1080 RectSpeaker1) = Some 0.05
   \<and> top_opt (rectangles sized_1920_1080 RectSpeaker1) = Some (2 / 27)
   \<and> left_opt (rectangles (pointerMove video_1920_1080 overlay_960_540 (event_at 196 154 1)
         moving_1920_1080) RectSpeaker1) = Some 0.15
   \<and> top_opt (rectangles (pointerMove video_1920_1080 overlay_960_540 (event_at 196 154 1)
         moving_1920_1080) RectSpeaker1) = Some (2 / 27)
   \<and> left_opt (rectangles (pointerMove video_1920_1080 overlay_960_540 (event_at (- 860) (- 440) 1)
         moving_1920_1080) RectSpeaker1) = Some 0
   \<and> top_opt (rectangles (pointerMove video_1920_1080 overlay_960_540 (event_at (- 860) (- 440) 1)
         moving_1920_1080) RectSpeaker1) = Some 0
   \<and> left_opt (rectangles (pointerMove video_1920_1080 overlay_960_540 (event_at 1060 73 1)
         moving_1920_1080) RectSpeaker1) = Some (41 / 96)
   \<and> top_opt (rectangles (pointerMove video_1920_1080 overlay_960_540 (event_at 1060 73 1)
         moving_1920_1080) RectSpeaker1) = Some (13 / 540)
   \<and> widthRatio (rectangles (pointerMove video_1920_1080 overlay_960_540 (event_at 196 154 1)
         moving_1920_1080) RectSpeaker1) = 1100 / 1920
   \<and> heightRatio (rectangles (pointerMove video_1920_1080 overlay_960_540 (event_at 196 154 1)
         moving_1920_1080) RectSpeaker1) = 1000 / 1080
   \<and> rectangles (pointerMove video_1920_1080 overlay_960_540 (event_at 196 154 1)
         moving_1920_1080) RectSpeaker2 = rectangles moving_1920_1080 RectSpeaker2
   \<and> pointerMove video_1920_1080 overlay_0_0 (event_at 196 154 1) moving_1920_1080
       = moving_1920_1080
   \<and> pointerMove video_1920_1080 overlay_960_540 (event_at 196 154 1)
         (pointerMove video_1920_1080 overlay_960_540 (event_at 500 500 1) moving_1920_1080)
       = pointerMove video_1920_1080 overlay_960_540 (event_at 196 154 1) moving_1920_1080
   \<and> top_opt (rectangles (pointerMove video_1280_720 overlay_960_540 (event_at 196 154 1)
         moving_1280_720) RectSpeaker1) = Some 0
   \<and> left_opt (rectangles (pointerMove video_1280_720 overlay_960_540 (event_at 196 154 1)
         moving_1280_720) RectSpeaker1) = Some (9 / 64)
   \<and> interaction (pointerDown (event_at 100 100 1) RectSpeaker1 sized_1920_1080)
       = Some (Move RectSpeaker1
           \<lparr> start_clientX = 100, start_clientY = 100, start_left = 0.05, start_top = 2 / 27 \<rparr>
           1 (RectElement RectSpeaker1))"
proof -
  let ?st = "\<lparr> start_clientX = 100, start_clientY = 100, start_left = 0.05, start_top = 2 / 27 \<rparr>"
  let ?A = "pointerMove video_1920_1080 overlay_960_540 (event_at 196 154 1) moving_1920_1080"
  let ?B = "pointerMove video_1920_1080 overlay_960_540 (event_at (- 860) (- 440) 1)
              moving_1920_1080"
  let ?C = "pointerMove video_1920_1080 overlay_960_540 (event_at 1060 73 1) moving_1920_1080"
  let ?D = "pointerMove video_1280_720 overlay_960_540 (event_at 196 154 1) moving_1280_720"
  note m = moving_1920_1080_interaction
  note m7 = moving_1280_720_interaction
  have b: "bounds_width overlay_960_540 \<noteq> 0 \<and> bounds_height overlay_960_540 \<noteq> 0"
    by (simp add: overlay_960_540_sel)
  have z: "bounds_width overlay_0_0 = 0 \<or> bounds_height overlay_0_0 = 0"
    by (simp add: overlay_0_0_def)
  have p: "left_opt (rectangles sized_1920_1080 RectSpeaker1) = Some 0.05
         \<and> top_opt (rectangles sized_1920_1080 RectSpeaker1) = Some (2 / 27)"
    by (simp add: sized_1920_1080_rect1)
  have sizes: "widthRatio (rectangles moving_1920_1080 RectSpeaker1) = 1100 / 1920"
     "heightRatio (rectangles moving_1920_1080 RectSpeaker1) = 1000 / 1080"
    by (simp_all add: moving_1920_1080_rectangles sized_1920_1080_rect1)
  have fit: "widthRatio (rectangles moving_1920_1080 RectSpeaker1) \<le> 1
           \<and> heightRatio (rectangles moving_1920_1080 RectSpeaker1) \<le> 1"
    by (simp add: sizes)
  have sizes7: "widthRatio (rectangles moving_1280_720 RectSpeaker1) = 1100 / 1280"
     "heightRatio (rectangles moving_1280_720 RectSpeaker1) = 1000 / 720"
    by (simp_all add: moving_1280_720_rectangles sized_1280_720_rect1)
  note tA = pointerMove_moving_sets_origin_plus_total_delta
    [OF m, of video_1920_1080 overlay_960_540 "event_at 196 154 1"]
  note tB = pointerMove_moving_sets_origin_plus_total_delta
    [OF m, of video_1920_1080 overlay_960_540 "event_at (- 860) (- 440) 1"]
  note tC = pointerMove_moving_sets_origin_plus_total_delta
    [OF m, of video_1920_1080 overlay_960_540 "event_at 1060 73 1"]
  note tZ = pointerMove_moving_sets_origin_plus_total_delta
    [OF m, of video_1920_1080 overlay_0_0 "event_at 196 154 1"]
  note tD = pointerMove_moving_sets_origin_plus_total_delta
    [OF m7, of video_1280_720 overlay_960_540 "event_at 196 154 1"]
  have A: "left_opt (rectangles ?A RectSpeaker1) = Some 0.15
         \<and> top_opt (rectangles ?A RectSpeaker1) = Some (2 / 27)"
    using tA b by (simp add: sizes overlay_960_540_sel event_at_def)
  have B: "left_opt (rectangles ?B RectSpeaker1) = Some 0
         \<and> top_opt (rectangles ?B RectSpeaker1) = Some 0"
    using tB b by (simp add: sizes overlay_960_540_sel event_at_def)
  have C: "left_opt (rectangles ?C RectSpeaker1) = Some (41 / 96)
         \<and> top_opt (rectangles ?C RectSpeaker1) = Some (13 / 540)"
    using tC b by (simp add: sizes overlay_960_540_sel event_at_def)
  have D: "top_opt (rectangles ?D RectSpeaker1) = Some 0
         \<and> left_opt (rectangles ?D RectSpeaker1) = Some (9 / 64)"
    using tD b by (simp add: sizes7 overlay_960_540_sel event_at_def)
  have w: "widthRatio (rectangles ?A RectSpeaker1) = 1100 / 1920"
    and h: "heightRatio (rectangles ?A RectSpeaker1) = 1000 / 1080"
    using tA sizes by simp_all
  have o: "rectangles ?A RectSpeaker2 = rectangles moving_1920_1080 RectSpeaker2"
    using tA by blast
  have Z: "pointerMove video_1920_1080 overlay_0_0 (event_at 196 154 1) moving_1920_1080
             = moving_1920_1080"
    using tZ z by blast
  have nd: "pointerMove video_1920_1080 overlay_960_540 (event_at 196 154 1)
         (pointerMove video_1920_1080 overlay_960_540 (event_at 500 500 1) moving_1920_1080) = ?A"
    using tA b by blast
  have "left_opt (rectangles sized_1920_1080 RectSpeaker1) = Some 0.05
       \<and> top_opt (rectangles sized_1920_1080 RectSpeaker1) = Some (2 / 27)
     \<longrightarrow> interaction (pointerDown (event_at 100 100 1) RectSpeaker1 sized_1920_1080)
       = Some (Move RectSpeaker1
           \<lparr> start_clientX = clientX (event_at 100 100 1),
             start_clientY = clientY (event_at 100 100 1),
             start_left = 0.05, start_top = 2 / 27 \<rparr>
           (pointerId (event_at 100 100 1)) (RectElement RectSpeaker1))"
    using tA by blast
  with p have d: "interaction (pointerDown (event_at 100 100 1) RectSpeaker1 sized_1920_1080)
       = Some (Move RectSpeaker1 ?st 1 (RectElement RectSpeaker1))"
    by (simp add: event_at_def)
  from m m7 b z fit p A B C D w h o Z nd d show ?thesis by simp
qed

end
